theory Spec2Isabelle
  imports Main "HOL-Library.Word"
begin

section \<open>Errors and formatting\<close>

text \<open>
  Go's \<^verbatim>\<open>error\<close> values. \<open>Canceled\<close> and \<open>DeadlineExceeded\<close> are the two sentinel values
  of package context, compared by identity in the tests (\<^verbatim>\<open>err != context.Canceled\<close>).
  \<open>ErrorString m\<close> is the value built by \<^verbatim>\<open>errors.New(m)\<close> or \<^verbatim>\<open>fmt.Errorf\<close> with final
  text \<open>m\<close>. \<open>LibError m\<close> is an error value handed back by a library call (json.Marshal,
  json.Unmarshal, the HTTP client, ioutil.ReadAll) whose \<^verbatim>\<open>Error()\<close> text is \<open>m\<close>.
  A nil error is \<open>None\<close> of \<open>error option\<close>.
\<close>

datatype error =
    Canceled
  | DeadlineExceeded
  | ErrorString string
  | LibError string

fun Error :: "error \<Rightarrow> string" where
  "Error Canceled = ''context canceled''"
| "Error DeadlineExceeded = ''context deadline exceeded''"
| "Error (ErrorString m) = m"
| "Error (LibError m) = m"

text \<open>\<^verbatim>\<open>strings.Contains(s, substr)\<close>, as the tests use it on error messages.\<close>

fun Contains :: "string \<Rightarrow> string \<Rightarrow> bool" where
  "Contains [] substr = (substr = [])"
| "Contains (c # s) substr = (take (length substr) (c # s) = substr \<or> Contains s substr)"

text \<open>The verb \<^verbatim>\<open>%d\<close> of package fmt on an int: decimal digits, a minus sign when negative.\<close>

definition digit :: "nat \<Rightarrow> char" where
  "digit n = ''0123456789abcdef'' ! n"

function fmt_nat :: "nat \<Rightarrow> string" where
  "fmt_nat n = (if n < 10 then [digit n] else fmt_nat (n div 10) @ [digit (n mod 10)])"
  by pat_completeness auto
termination
  by (relation "measure id") auto

declare fmt_nat.simps [simp del]

definition fmt_d :: "int \<Rightarrow> string" where
  "fmt_d i = (if i < 0 then CHR ''-'' # fmt_nat (nat (- i)) else fmt_nat (nat i))"

text \<open>
  The verb \<^verbatim>\<open>%q\<close> of package fmt on a string or a byte slice: \<^verbatim>\<open>strconv.Quote\<close>, a
  double-quoted Go string literal. A byte below 0x80 is written as itself when it is
  printable and neither the quote nor the backslash, as a two-character escape when Go
  has one, and as \<^verbatim>\<open>\x\<close> with two lower-case hex digits otherwise. How a maximal run of
  bytes from 0x80 on is written depends on UTF-8 decoding and the Unicode tables of the
  Go runtime; that rendering is the parameter \<open>hi\<close>.
\<close>

definition quoteByte :: "char \<Rightarrow> string" where
  "quoteByte c =
     (let n = (of_char c :: nat) in
      if n = 0x22 then [CHR 0x5C, CHR 0x22]
      else if n = 0x5C then [CHR 0x5C, CHR 0x5C]
      else if 0x20 \<le> n \<and> n < 0x7F then [c]
      else if n = 7 then [CHR 0x5C, CHR ''a'']
      else if n = 8 then [CHR 0x5C, CHR ''b'']
      else if n = 12 then [CHR 0x5C, CHR ''f'']
      else if n = 10 then [CHR 0x5C, CHR ''n'']
      else if n = 13 then [CHR 0x5C, CHR ''r'']
      else if n = 9 then [CHR 0x5C, CHR ''t'']
      else if n = 11 then [CHR 0x5C, CHR ''v'']
      else [CHR 0x5C, CHR ''x'', digit (n div 16), digit (n mod 16)])"

fun quoteFrom :: "(string \<Rightarrow> string) \<Rightarrow> string \<Rightarrow> string \<Rightarrow> string" where
  "quoteFrom hi run [] = (if run = [] then [] else hi run)"
| "quoteFrom hi run (c # s) =
     (if (of_char c :: nat) < 0x80
      then (if run = [] then [] else hi run) @ quoteByte c @ quoteFrom hi [] s
      else quoteFrom hi (run @ [c]) s)"

definition quote :: "(string \<Rightarrow> string) \<Rightarrow> string \<Rightarrow> string" where
  "quote hi s = CHR 0x22 # quoteFrom hi [] s @ [CHR 0x22]"

text \<open>A byte that \<^verbatim>\<open>%q\<close> writes as itself.\<close>

definition plain :: "char \<Rightarrow> bool" where
  "plain c = (0x20 \<le> (of_char c :: nat) \<and> (of_char c :: nat) < 0x7F
              \<and> (of_char c :: nat) \<noteq> 0x22 \<and> (of_char c :: nat) \<noteq> 0x5C)"

section \<open>protocol: the status table\<close>

text \<open>
  \<^verbatim>\<open>var statusName = map[int]string{...}\<close> with the constants StatusOk = 0 to
  StatusThemeIndexOutOfRange = 243. Go's \<^verbatim>\<open>int\<close> is modelled as \<open>int\<close>: the function does
  no arithmetic on the status, so every machine integer is covered.
\<close>

definition statusName :: "int \<rightharpoonup> string" where
  "statusName = map_of
     [(0, ''ok''),
      (1, ''unknown method''),
      (101, ''unparseable request''),
      (102, ''invalid request''),
      (201, ''precondition failed''),
      (202, ''group name in use''),
      (205, ''group number in use''),
      (243, ''theme index out of range'')]"

definition ErrorForStatus :: "int \<Rightarrow> error option" where
  "ErrorForStatus status =
     (if status = 0 then None
      else (case statusName status of
              Some statusStr \<Rightarrow> Some (ErrorString statusStr)
            | None \<Rightarrow> Some (ErrorString (''unknown status '' @ fmt_d status))))"

section \<open>protocol: the response shapes\<close>

text \<open>
  Every \<^verbatim>\<open>XResponse\<close> struct of package protocol has the field \<^verbatim>\<open>Status int\<close>; most have
  nothing else. The base record carries that field and the richer responses extend it,
  so that \<open>Status\<close> reads the field of any response. The \<^verbatim>\<open>uint8\<close> fields are 8-bit words,
  a nil slice is the empty list. The request structs are only ever handed to
  \<^verbatim>\<open>json.Marshal\<close> (the parameter \<^verbatim>\<open>request interface{}\<close>), so the request type is a type
  variable.
\<close>

record Response =
  Status :: int

record ThemeGroup =
  GroupNumber :: "8 word"
  Intensity :: "8 word"

datatype Group = Group "8 word" "8 word" string

datatype Theme = Theme string "8 word" "8 word"

record ControllerNameResponse = Response +
  Controller :: string

record GroupListGetResponse = Response +
  GroupList :: "Group list"

record ThemeGetResponse = Response +
  Groups :: "ThemeGroup list"

record ThemeListGetResponse = Response +
  Restricted :: int
  ThemeList :: "Theme list"

section \<open>client: the environment of a call\<close>

text \<open>
  \<^verbatim>\<open>context.Context\<close> is an interface of a library; a call sees three things of it.
  \<open>Deadline\<close> is the result of \<^verbatim>\<open>ctx.Deadline()\<close>, \<open>Some d\<close> when \<^verbatim>\<open>ok\<close> is true, with the
  time \<open>d\<close> in nanoseconds. \<open>DoneAt\<close> is the instant at which the channel \<^verbatim>\<open>ctx.Done()\<close>
  becomes ready: \<open>Some 0\<close> when it already is at the moment of the call, \<open>Some i\<close> with
  \<open>0 < i\<close> when it fires later, \<open>None\<close> when it never does (the \<^verbatim>\<open>deadlineContext\<close> of the
  tests). \<open>Err\<close> is what \<^verbatim>\<open>ctx.Err()\<close> returns once the channel is ready.
  Instants are logical: they order the events of one call.
\<close>

record Context =
  Deadline :: "int option"
  DoneAt :: "nat option"
  Err :: "error option"

text \<open>
  \<^verbatim>\<open>deadline.Sub(time.Now())\<close>: the difference as a \<^verbatim>\<open>time.Duration\<close>, an int64 of
  nanoseconds, which \<^verbatim>\<open>Sub\<close> saturates at both ends.
\<close>

definition Sub :: "int \<Rightarrow> int \<Rightarrow> int" where
  "Sub t u = max (- (2 ^ 63)) (min (2 ^ 63 - 1) (t - u))"

record Controller =
  BaseURL :: string

text \<open>What the HTTP client is asked to send, and what comes back.\<close>

record http_request =
  reqURL :: string
  reqTimeout :: int
  reqContentType :: string
  reqBody :: string

text \<open>
  \<open>HttpStatus\<close> is \<^verbatim>\<open>httpResp.Status\<close>, the status line text such as
  \<^verbatim>\<open>500 Internal Server Error\<close>; \<open>ContentType\<close> is \<^verbatim>\<open>httpResp.Header.Get("Content-Type")\<close>;
  \<open>ReadAll\<close> is the result of \<^verbatim>\<open>ioutil.ReadAll(httpResp.Body)\<close>.
\<close>

record http_response =
  StatusCode :: int
  HttpStatus :: string
  ContentType :: string
  ReadAll :: "error + string"

text \<open>
  The library calls and the surroundings of one call of \<^verbatim>\<open>request\<close>:
  \<^item> \<open>Marshal\<close>: \<^verbatim>\<open>json.Marshal(request)\<close>;
  \<^item> \<open>Now\<close>: \<^verbatim>\<open>time.Now()\<close>, in nanoseconds;
  \<^item> \<open>Post\<close>: what \<^verbatim>\<open>httpClient.Post\<close> returns for a request, the server and network included;
  \<^item> \<open>PostDone\<close>: the instant at which \<^verbatim>\<open>doPost\<close> sends its result on the channel,
    \<open>None\<close> when the exchange never completes;
  \<^item> \<open>Pick\<close>: the choice of a \<^verbatim>\<open>select\<close> when both of its cases are ready, \<open>True\<close> for
    the case \<^verbatim>\<open><-ctx.Done()\<close>;
  \<^item> \<open>Unmarshal\<close>: \<^verbatim>\<open>json.Unmarshal(body, response)\<close>, from the body and the value
    \<^verbatim>\<open>response\<close> points to, to that value afterwards and the error;
  \<^item> \<open>QuoteHigh\<close>: the rendering of non-ASCII runs by \<^verbatim>\<open>%q\<close>;
  \<^item> \<open>NewRequest\<close> and \<open>Do\<close>: \<^verbatim>\<open>http.NewRequestWithContext\<close> (its error for a URL) and
    \<^verbatim>\<open>http.DefaultClient.Do\<close> (the instant and the result, \<open>None\<close> when it never
    returns), which the second revision of \<^verbatim>\<open>request\<close> uses.
\<close>

record ('q, 'r) world =
  Marshal :: "'q \<Rightarrow> error + string"
  Now :: int
  Post :: "http_request \<Rightarrow> error + http_response"
  PostDone :: "http_request \<Rightarrow> nat option"
  Pick :: bool
  Unmarshal :: "string \<Rightarrow> 'r \<Rightarrow> 'r \<times> error option"
  QuoteHigh :: "string \<Rightarrow> string"
  NewRequest :: "string \<Rightarrow> error option"
  Do :: "Context \<Rightarrow> http_request \<Rightarrow> (nat \<times> (error + http_response)) option"

text \<open>
  What a call does to the outside: the requests handed to the HTTP client and the bodies
  handed to \<^verbatim>\<open>json.Unmarshal\<close>, in order.
\<close>

datatype event = HttpPost http_request | JsonUnmarshal string

text \<open>A call returns a value at an instant, or blocks forever.\<close>

datatype 'a outcome = Return 'a nat | Blocks

section \<open>client: request and doPost\<close>

text \<open>\<^verbatim>\<open>httpResult\<close>, the value \<^verbatim>\<open>doPost\<close> sends to \<^verbatim>\<open>request\<close>.\<close>

record httpResult =
  body :: string
  err :: "error option"

definition doPost :: "('q, 'r) world \<Rightarrow> string \<Rightarrow> int \<Rightarrow> string \<Rightarrow> httpResult" where
  "doPost w url timeout requestBody =
     (case Post w \<lparr>reqURL = url, reqTimeout = timeout,
                   reqContentType = ''application/json'', reqBody = requestBody\<rparr> of
        Inl e \<Rightarrow> \<lparr>body = [], err = Some e\<rparr>
      | Inr httpResp \<Rightarrow>
          (case ReadAll httpResp of
             Inl e \<Rightarrow> \<lparr>body = [], err = Some e\<rparr>
           | Inr b \<Rightarrow>
               if StatusCode httpResp \<noteq> 200
               then \<lparr>body = [], err = Some (ErrorString
                      (''Unexpected HTTP status: '' @ quote (QuoteHigh w) (HttpStatus httpResp)
                       @ '' with body: '' @ quote (QuoteHigh w) b))\<rparr>
               else if ContentType httpResp \<noteq> ''application/json''
               then \<lparr>body = [], err = Some (ErrorString
                      (''Unexpected response content type: ''
                       @ quote (QuoteHigh w) (ContentType httpResp)
                       @ '' with body: '' @ quote (QuoteHigh w) b))\<rparr>
               else \<lparr>body = b, err = None\<rparr>))"

text \<open>
  The blocking \<^verbatim>\<open>select\<close> over \<^verbatim>\<open>ctx.Done()\<close> and the result channel: it takes the case
  that becomes ready first, chooses by \<open>pick\<close> when both become ready at the same
  instant, and waits forever when neither ever does.
\<close>

datatype select_case = CtxDone nat | GotResult nat | Forever

definition select2 :: "nat option \<Rightarrow> nat option \<Rightarrow> bool \<Rightarrow> select_case" where
  "select2 d r pick =
     (case d of
        None \<Rightarrow> (case r of None \<Rightarrow> Forever | Some j \<Rightarrow> GotResult j)
      | Some i \<Rightarrow>
          (case r of
             None \<Rightarrow> CtxDone i
           | Some j \<Rightarrow> if i < j then CtxDone i
                       else if j < i then GotResult j
                       else if pick then CtxDone i else GotResult j))"

text \<open>
  \<^verbatim>\<open>request\<close>, first revision (the one with \<^verbatim>\<open>doPost\<close>). The result is the returned error,
  the value \<^verbatim>\<open>response\<close> points to at that moment, the instant of the return, and the
  events of the call.
\<close>

definition request ::
  "('q, 'r) world \<Rightarrow> Controller \<Rightarrow> Context \<Rightarrow> string \<Rightarrow> 'q \<Rightarrow> 'r
     \<Rightarrow> (error option \<times> 'r) outcome \<times> event list" where
  "request w c ctx method req response =
     (case Marshal w req of
        Inl e \<Rightarrow> (Return (Some e, response) 0, [])
      | Inr serializedReq \<Rightarrow>
          if DoneAt ctx = Some 0 then (Return (Err ctx, response) 0, [])
          else
            let timeout = (case Deadline ctx of None \<Rightarrow> 0
                           | Some deadline \<Rightarrow> Sub deadline (Now w))
            in
            if Deadline ctx \<noteq> None \<and> timeout \<le> 0
            then (Return (Some Canceled, response) 0, [])
            else
              let url = BaseURL c @ ''/'' @ method @ ''.json'';
                  sent = HttpPost \<lparr>reqURL = url, reqTimeout = timeout,
                            reqContentType = ''application/json'', reqBody = serializedReq\<rparr>;
                  result = doPost w url timeout serializedReq
              in
              (case select2 (DoneAt ctx)
                      (PostDone w \<lparr>reqURL = url, reqTimeout = timeout,
                         reqContentType = ''application/json'', reqBody = serializedReq\<rparr>)
                      (Pick w) of
                 Forever \<Rightarrow> (Blocks, [sent])
               | CtxDone i \<Rightarrow> (Return (Err ctx, response) i, [sent])
               | GotResult j \<Rightarrow>
                   (case err result of
                      Some e \<Rightarrow> (Return (Some e, response) j, [sent])
                    | None \<Rightarrow>
                        (case Unmarshal w (body result) response of
                           (response', Some e) \<Rightarrow>
                             (Return (Some (ErrorString
                                 (''JSON error: '' @ Error e @ '' while parsing body: ''
                                  @ quote (QuoteHigh w) (body result))), response') j,
                              [sent, JsonUnmarshal (body result)])
                         | (response', None) \<Rightarrow>
                             (Return (None, response') j,
                              [sent, JsonUnmarshal (body result)])))))"

text \<open>
  \<^verbatim>\<open>request\<close>, second revision (the copy of client.go that builds the request with
  \<^verbatim>\<open>http.NewRequestWithContext\<close> and leaves cancellation to \<^verbatim>\<open>http.DefaultClient.Do\<close>).
\<close>

definition request2 ::
  "('q, 'r) world \<Rightarrow> Controller \<Rightarrow> Context \<Rightarrow> string \<Rightarrow> 'q \<Rightarrow> 'r
     \<Rightarrow> (error option \<times> 'r) outcome \<times> event list" where
  "request2 w c ctx method req response =
     (case Marshal w req of
        Inl e \<Rightarrow> (Return (Some e, response) 0, [])
      | Inr serializedReq \<Rightarrow>
          let url = BaseURL c @ ''/'' @ method @ ''.json'';
              httpReq = \<lparr>reqURL = url, reqTimeout = 0,
                         reqContentType = ''application/json'', reqBody = serializedReq\<rparr>
          in
          (case NewRequest w url of
             Some e \<Rightarrow> (Return (Some e, response) 0, [])
           | None \<Rightarrow>
               (case Do w ctx httpReq of
                  None \<Rightarrow> (Blocks, [HttpPost httpReq])
                | Some (j, Inl e) \<Rightarrow> (Return (Some e, response) j, [HttpPost httpReq])
                | Some (j, Inr httpResp) \<Rightarrow>
                    (case ReadAll httpResp of
                       Inl e \<Rightarrow> (Return (Some e, response) j, [HttpPost httpReq])
                     | Inr b \<Rightarrow>
                         if StatusCode httpResp \<noteq> 200
                         then (Return (Some (ErrorString
                                 (''Unexpected HTTP status: ''
                                  @ quote (QuoteHigh w) (HttpStatus httpResp)
                                  @ '' with body: '' @ quote (QuoteHigh w) b)), response) j,
                               [HttpPost httpReq])
                         else if ContentType httpResp \<noteq> ''application/json''
                         then (Return (Some (ErrorString
                                 (''Unexpected response content type: ''
                                  @ quote (QuoteHigh w) (ContentType httpResp)
                                  @ '' with body: '' @ quote (QuoteHigh w) b)), response) j,
                               [HttpPost httpReq])
                         else
                           (case Unmarshal w b response of
                              (response', Some e) \<Rightarrow>
                                (Return (Some (ErrorString
                                    (''JSON error: '' @ Error e @ '' while parsing body: ''
                                     @ quote (QuoteHigh w) b)), response') j,
                                 [HttpPost httpReq, JsonUnmarshal b])
                            | (response', None) \<Rightarrow>
                                (Return (None, response') j,
                                 [HttpPost httpReq, JsonUnmarshal b]))))))"

section \<open>client: the methods of Controller\<close>

text \<open>
  The 22 methods of \<^verbatim>\<open>*Controller\<close> have one and the same body, which differs only in the
  method name and in the response struct it allocates:
  \<^verbatim>\<open>resp := &protocol.XResponse{}\<close>, then \<^verbatim>\<open>c.request(ctx, "X", req, resp)\<close>, then
  \<^verbatim>\<open>nil, err\<close> on an error and \<^verbatim>\<open>resp, protocol.ErrorForStatus(resp.Status)\<close> otherwise.
  \<open>rpc\<close> is that body, with the name and the zero value of the response as
  arguments. A nil response pointer is \<open>None\<close>.
\<close>

definition rpc ::
  "('q, 'z Response_scheme) world \<Rightarrow> Controller \<Rightarrow> Context \<Rightarrow> string \<Rightarrow> 'q
     \<Rightarrow> 'z Response_scheme
     \<Rightarrow> ('z Response_scheme option \<times> error option) outcome \<times> event list" where
  "rpc w c ctx method req resp =
     (case request w c ctx method req resp of
        (Blocks, evs) \<Rightarrow> (Blocks, evs)
      | (Return (Some e, resp') i, evs) \<Rightarrow> (Return (None, Some e) i, evs)
      | (Return (None, resp') i, evs) \<Rightarrow>
          (Return (Some resp', ErrorForStatus (Status resp')) i, evs))"

type_synonym ('q, 'r) rpc_method =
  "('q, 'r) world \<Rightarrow> Controller \<Rightarrow> Context \<Rightarrow> 'q
     \<Rightarrow> ('r option \<times> error option) outcome \<times> event list"

definition AssignLight :: "('q, Response) rpc_method" where
  "AssignLight w c ctx req = rpc w c ctx ''AssignLight'' req \<lparr>Status = 0\<rparr>"

definition ControllerName :: "('q, ControllerNameResponse) rpc_method" where
  "ControllerName w c ctx req =
     rpc w c ctx ''ControllerName'' req \<lparr>Status = 0, Controller = []\<rparr>"

definition ExtinguishAll :: "('q, Response) rpc_method" where
  "ExtinguishAll w c ctx req = rpc w c ctx ''ExtinguishAll'' req \<lparr>Status = 0\<rparr>"

definition FlashLights :: "('q, Response) rpc_method" where
  "FlashLights w c ctx req = rpc w c ctx ''FlashLights'' req \<lparr>Status = 0\<rparr>"

definition GroupListAdd :: "('q, Response) rpc_method" where
  "GroupListAdd w c ctx req = rpc w c ctx ''GroupListAdd'' req \<lparr>Status = 0\<rparr>"

definition GroupListClear :: "('q, GroupListGetResponse) rpc_method" where
  "GroupListClear w c ctx req =
     rpc w c ctx ''GroupListClear'' req \<lparr>Status = 0, GroupList = []\<rparr>"

definition GroupListDelete :: "('q, Response) rpc_method" where
  "GroupListDelete w c ctx req = rpc w c ctx ''GroupListDelete'' req \<lparr>Status = 0\<rparr>"

definition GroupListGet :: "('q, GroupListGetResponse) rpc_method" where
  "GroupListGet w c ctx req =
     rpc w c ctx ''GroupListGet'' req \<lparr>Status = 0, GroupList = []\<rparr>"

definition GroupListRename :: "('q, Response) rpc_method" where
  "GroupListRename w c ctx req = rpc w c ctx ''GroupListRename'' req \<lparr>Status = 0\<rparr>"

definition GroupListReorder :: "('q, Response) rpc_method" where
  "GroupListReorder w c ctx req = rpc w c ctx ''GroupListReorder'' req \<lparr>Status = 0\<rparr>"

definition IlluminateAll :: "('q, Response) rpc_method" where
  "IlluminateAll w c ctx req = rpc w c ctx ''IlluminateAll'' req \<lparr>Status = 0\<rparr>"

definition IlluminateGroup :: "('q, Response) rpc_method" where
  "IlluminateGroup w c ctx req = rpc w c ctx ''IlluminateGroup'' req \<lparr>Status = 0\<rparr>"

definition IlluminateTheme :: "('q, Response) rpc_method" where
  "IlluminateTheme w c ctx req = rpc w c ctx ''IlluminateTheme'' req \<lparr>Status = 0\<rparr>"

definition ThemeClear :: "('q, Response) rpc_method" where
  "ThemeClear w c ctx req = rpc w c ctx ''ThemeClear'' req \<lparr>Status = 0\<rparr>"

definition ThemeGet :: "('q, ThemeGetResponse) rpc_method" where
  "ThemeGet w c ctx req = rpc w c ctx ''ThemeGet'' req \<lparr>Status = 0, Groups = []\<rparr>"

definition ThemeListAdd :: "('q, Response) rpc_method" where
  "ThemeListAdd w c ctx req = rpc w c ctx ''ThemeListAdd'' req \<lparr>Status = 0\<rparr>"

definition ThemeListClear :: "('q, Response) rpc_method" where
  "ThemeListClear w c ctx req = rpc w c ctx ''ThemeListClear'' req \<lparr>Status = 0\<rparr>"

definition ThemeListDelete :: "('q, Response) rpc_method" where
  "ThemeListDelete w c ctx req = rpc w c ctx ''ThemeListDelete'' req \<lparr>Status = 0\<rparr>"

definition ThemeListGet :: "('q, ThemeListGetResponse) rpc_method" where
  "ThemeListGet w c ctx req =
     rpc w c ctx ''ThemeListGet'' req \<lparr>Status = 0, Restricted = 0, ThemeList = []\<rparr>"

definition ThemeListRename :: "('q, Response) rpc_method" where
  "ThemeListRename w c ctx req = rpc w c ctx ''ThemeListRename'' req \<lparr>Status = 0\<rparr>"

definition ThemeListReorder :: "('q, Response) rpc_method" where
  "ThemeListReorder w c ctx req = rpc w c ctx ''ThemeListReorder'' req \<lparr>Status = 0\<rparr>"

definition ThemeSet :: "('q, Response) rpc_method" where
  "ThemeSet w c ctx req = rpc w c ctx ''ThemeSet'' req \<lparr>Status = 0\<rparr>"

section \<open>Vocabulary for the statements\<close>

text \<open>
  The timeout \<^verbatim>\<open>request\<close> computes, the request its \<^verbatim>\<open>doPost\<close> hands to the HTTP client,
  and the condition under which it gets as far as launching \<^verbatim>\<open>doPost\<close>: the done
  channel is not ready at the call and the deadline, if there is one, lies ahead.
\<close>

definition timeoutOf :: "('q, 'r) world \<Rightarrow> Context \<Rightarrow> int" where
  "timeoutOf w ctx = (case Deadline ctx of None \<Rightarrow> 0 | Some deadline \<Rightarrow> Sub deadline (Now w))"

definition postOf :: "('q, 'r) world \<Rightarrow> Controller \<Rightarrow> Context \<Rightarrow> string \<Rightarrow> string \<Rightarrow> http_request" where
  "postOf w c ctx method serializedReq =
     \<lparr>reqURL = BaseURL c @ ''/'' @ method @ ''.json'', reqTimeout = timeoutOf w ctx,
      reqContentType = ''application/json'', reqBody = serializedReq\<rparr>"

definition dispatches :: "('q, 'r) world \<Rightarrow> Context \<Rightarrow> bool" where
  "dispatches w ctx =
     (DoneAt ctx \<noteq> Some 0
      \<and> (case Deadline ctx of None \<Rightarrow> True | Some deadline \<Rightarrow> Now w < deadline))"

text \<open>The error a call returned, if it returned.\<close>

fun returned :: "('e \<times> 'r) outcome \<times> event list \<Rightarrow> 'e option" where
  "returned (Return (e, r) i, evs) = Some e"
| "returned (Blocks, evs) = None"

section \<open>Scenarios\<close>

text \<open>
  The contexts of client_test.go: \<^verbatim>\<open>context.Background()\<close>; a context of \<^verbatim>\<open>WithCancel\<close>
  whose \<^verbatim>\<open>cancel\<close> was called before the request; the \<^verbatim>\<open>deadlineContext\<close> of the tests,
  which has a deadline and never becomes done; a context canceled while the request is
  out. One more, which the tests do not exercise: a context of \<^verbatim>\<open>WithDeadline\<close> whose
  deadline passed before the request, which the library reports done with
  \<^verbatim>\<open>DeadlineExceeded\<close>.
\<close>

definition background :: Context where
  "background = \<lparr>Deadline = None, DoneAt = None, Err = None\<rparr>"

definition canceled :: Context where
  "canceled = \<lparr>Deadline = None, DoneAt = Some 0, Err = Some Canceled\<rparr>"

definition expired :: Context where
  "expired = \<lparr>Deadline = Some 0, DoneAt = Some 0, Err = Some DeadlineExceeded\<rparr>"

definition deadlineContext :: "int \<Rightarrow> Context" where
  "deadlineContext t = \<lparr>Deadline = Some t, DoneAt = None, Err = None\<rparr>"

definition canceledLater :: Context where
  "canceledLater = \<lparr>Deadline = None, DoneAt = Some 1, Err = Some Canceled\<rparr>"

text \<open>
  A test server of client_test.go and its surroundings: what \<^verbatim>\<open>json.Marshal\<close> gives, what the server
  answers, when the answer arrives, and what \<^verbatim>\<open>json.Unmarshal\<close> does with a body.
\<close>

definition testWorld ::
  "error + string \<Rightarrow> error + http_response \<Rightarrow> nat option
     \<Rightarrow> (string \<Rightarrow> 'r \<Rightarrow> 'r \<times> error option) \<Rightarrow> ('q, 'r) world" where
  "testWorld m p d u =
     \<lparr>Marshal = (\<lambda>_. m), Now = 1000, Post = (\<lambda>_. p), PostDone = (\<lambda>_. d), Pick = False,
      Unmarshal = u, QuoteHigh = (\<lambda>s. s), NewRequest = (\<lambda>_. None),
      Do = (\<lambda>_ _. map_option (\<lambda>i. (i, p)) d)\<rparr>"

definition reply :: "int \<Rightarrow> string \<Rightarrow> string \<Rightarrow> string \<Rightarrow> error + http_response" where
  "reply code status ctype b =
     Inr \<lparr>StatusCode = code, HttpStatus = status, ContentType = ctype, ReadAll = Inr b\<rparr>"

definition keeps :: "string \<Rightarrow> 'r \<Rightarrow> 'r \<times> error option" where
  "keeps b r = (r, None)"

definition rejects :: "string \<Rightarrow> string \<Rightarrow> 'r \<Rightarrow> 'r \<times> error option" where
  "rejects m b r = (r, Some (LibError m))"

definition storesGroups ::
  "ThemeGroup list \<Rightarrow> string \<Rightarrow> ThemeGetResponse \<Rightarrow> ThemeGetResponse \<times> error option" where
  "storesGroups gs b r = (r\<lparr>Groups := gs\<rparr>, None)"

definition storesStatus ::
  "int \<Rightarrow> string \<Rightarrow> ThemeGetResponse \<Rightarrow> ThemeGetResponse \<times> error option" where
  "storesStatus st b r = (r\<lparr>Status := st\<rparr>, None)"

definition themeGetBody :: string where
  \<open>themeGetBody =
     ''{"Groups":[{"GroupNumber":0,"Intensity":26},{"GroupNumber":1,"Intensity":42}]}''\<close>

definition themeGetRequest :: string where
  \<open>themeGetRequest = ''{"ThemeIndex":0}''\<close>

text \<open>Bodies and messages of the error scenarios.\<close>

definition horribleBody :: string where
  "horribleBody = ''Horrible problem'' @ [CHR 0x0A]"

definition badStatusMessage :: string where
  \<open>badStatusMessage =
     ''Unexpected HTTP status: "500 Internal Server Error" with body: "Horrible problem''
     @ [CHR 0x5C] @ ''n"''\<close>

definition badContentTypeMessage :: string where
  \<open>badContentTypeMessage = ''Unexpected response content type: "text/plain" with body: "ok"''\<close>

definition asdfSyntaxError :: string where
  "asdfSyntaxError = ''invalid character '' @ [CHR 0x27] @ ''a'' @ [CHR 0x27]
     @ '' looking for beginning of value''"

definition asdfMessage :: string where
  \<open>asdfMessage = ''JSON error: '' @ asdfSyntaxError @ '' while parsing body: "asdf"''\<close>

definition truncatedBody :: string where
  \<open>truncatedBody = ''{"Status":''\<close>

definition truncatedMessage :: string where
  \<open>truncatedMessage =
     ''JSON error: unexpected end of JSON input while parsing body: "{''
     @ [CHR 0x5C] @ ''"Status'' @ [CHR 0x5C] @ ''":"''\<close>

definition statusOneBody :: string where
  \<open>statusOneBody = ''{"Status":1}''\<close>

section \<open>Properties of the status table\<close>

lemma statusName_dom: "dom statusName = {0, 1, 101, 102, 201, 202, 205, 243}"
  by (auto simp: statusName_def dom_def split: if_splits)

lemma statusName_ran:
  "statusName k = Some d \<Longrightarrow>
     d \<in> {''ok'', ''unknown method'', ''unparseable request'', ''invalid request'',
          ''precondition failed'', ''group name in use'', ''group number in use'',
          ''theme index out of range''}"
  by (auto simp: statusName_def split: if_splits)

lemma unknown_status_not_in_table:
  "statusName k = Some d \<Longrightarrow> ''unknown status '' @ x \<noteq> d"
  by (drule statusName_ran) auto

lemma ErrorForStatus_unknown:
  "status \<notin> dom statusName \<Longrightarrow>
     ErrorForStatus status = Some (ErrorString (''unknown status '' @ fmt_d status))"
  by (auto simp: ErrorForStatus_def statusName_dom statusName_def)

lemma ErrorForStatus_known:
  "statusName status = Some d \<Longrightarrow> status \<noteq> 0 \<Longrightarrow> ErrorForStatus status = Some (ErrorString d)"
  by (simp add: ErrorForStatus_def)

lemma ErrorForStatus_nil_iff: "ErrorForStatus status = None \<longleftrightarrow> status = 0"
  by (simp add: ErrorForStatus_def split: option.splits)

text \<open>
  C5. \<open>ErrorForStatus status\<close> is nil exactly when \<open>status\<close> is 0. For each of the statuses
  1, 101, 102, 201, 202, 205 and 243 it is an error whose message is the description the
  table gives. For every other integer it is an error whose message is
  \<^verbatim>\<open>unknown status\<close> followed by the decimal value, and that message is the description of
  no table entry.
\<close>

theorem ErrorForStatus_classifies:
  "(ErrorForStatus status = None \<longleftrightarrow> status = 0)
   \<and> map_option Error (ErrorForStatus 1) = Some ''unknown method''
   \<and> map_option Error (ErrorForStatus 101) = Some ''unparseable request''
   \<and> map_option Error (ErrorForStatus 102) = Some ''invalid request''
   \<and> map_option Error (ErrorForStatus 201) = Some ''precondition failed''
   \<and> map_option Error (ErrorForStatus 202) = Some ''group name in use''
   \<and> map_option Error (ErrorForStatus 205) = Some ''group number in use''
   \<and> map_option Error (ErrorForStatus 243) = Some ''theme index out of range''
   \<and> (status \<notin> {0, 1, 101, 102, 201, 202, 205, 243} \<longrightarrow>
        map_option Error (ErrorForStatus status) = Some (''unknown status '' @ fmt_d status)
        \<and> (\<forall>k d. statusName k = Some d \<longrightarrow>
               map_option Error (ErrorForStatus status) \<noteq> Some d))"
proof -
  have known: "map_option Error (ErrorForStatus 1) = Some ''unknown method''"
    "map_option Error (ErrorForStatus 101) = Some ''unparseable request''"
    "map_option Error (ErrorForStatus 102) = Some ''invalid request''"
    "map_option Error (ErrorForStatus 201) = Some ''precondition failed''"
    "map_option Error (ErrorForStatus 202) = Some ''group name in use''"
    "map_option Error (ErrorForStatus 205) = Some ''group number in use''"
    "map_option Error (ErrorForStatus 243) = Some ''theme index out of range''"
    by (simp_all add: ErrorForStatus_def statusName_def)
  have unknown: "map_option Error (ErrorForStatus status) = Some (''unknown status '' @ fmt_d status)
        \<and> (\<forall>k d. statusName k = Some d \<longrightarrow> map_option Error (ErrorForStatus status) \<noteq> Some d)"
    if "status \<notin> {0, 1, 101, 102, 201, 202, 205, 243}"
  proof -
    from that have "status \<notin> dom statusName" by (simp add: statusName_dom)
    then have e: "ErrorForStatus status = Some (ErrorString (''unknown status '' @ fmt_d status))"
      by (rule ErrorForStatus_unknown)
    show ?thesis
      using unknown_status_not_in_table by (simp add: e)
  qed
  from unknown have u: "status \<notin> {0, 1, 101, 102, 201, 202, 205, 243} \<longrightarrow>
        map_option Error (ErrorForStatus status) = Some (''unknown status '' @ fmt_d status)
        \<and> (\<forall>k d. statusName k = Some d \<longrightarrow>
               map_option Error (ErrorForStatus status) \<noteq> Some d)"
    by (rule impI)
  show ?thesis
    by (intro conjI) (rule ErrorForStatus_nil_iff known u)+
qed

theorem ErrorForStatus_classifies_witness:
  "ErrorForStatus 0 = None
   \<and> map_option Error (ErrorForStatus 243) = Some ''theme index out of range''
   \<and> map_option Error (ErrorForStatus 7) = Some ''unknown status 7''
   \<and> map_option Error (ErrorForStatus (- 42)) = Some ''unknown status -42''
   \<and> map_option Error (ErrorForStatus 7) \<noteq> Some ''unknown method''"
proof -
  have m: "statusName 1 = Some ''unknown method''"
    by (simp add: statusName_def)
  have a: "fmt_d 7 = ''7''" "fmt_d (- 42) = ''-42''"
    by (simp_all add: fmt_d_def fmt_nat.simps digit_def)
  show ?thesis
    using ErrorForStatus_classifies [of 0] ErrorForStatus_classifies [of 7]
      ErrorForStatus_classifies [of "- 42"] m a
    by simp
qed

text \<open>
  C6, as amended. For every status of the table other than 0 the error's message is the
  table's description; for 0, whose table entry is \<^verbatim>\<open>ok\<close>, the result is nil and no
  error carries that description.
\<close>

theorem ErrorForStatus_table_nonzero:
  "(\<forall>status d. statusName status = Some d \<and> status \<noteq> 0 \<longrightarrow>
       map_option Error (ErrorForStatus status) = Some d)
   \<and> statusName 0 = Some ''ok'' \<and> ErrorForStatus 0 = None"
  by (simp add: ErrorForStatus_known) (simp add: ErrorForStatus_def statusName_def)

theorem ErrorForStatus_table_nonzero_witness:
  "statusName 202 = Some ''group name in use'' \<and> (202::int) \<noteq> 0
   \<and> map_option Error (ErrorForStatus 202) = Some ''group name in use''"
proof -
  have h: "statusName 202 = Some ''group name in use''"
    by (simp add: statusName_def)
  show ?thesis
    using ErrorForStatus_table_nonzero h by auto
qed

text \<open>
  The claim C6 as stated fails at the table entry 0: the table describes it as \<^verbatim>\<open>ok\<close>,
  and \<open>ErrorForStatus 0\<close> is nil, not an error with that description.
\<close>

theorem ErrorForStatus_ok_counterexample:
  "statusName 0 = Some ''ok'' \<and> map_option Error (ErrorForStatus 0) \<noteq> Some ''ok''"
  by (simp add: ErrorForStatus_def statusName_def)

section \<open>Properties of request\<close>

lemma Sub_pos_iff: "0 < Sub t u \<longleftrightarrow> u < t"
  by (auto simp: Sub_def)

lemma Sub_le0_iff: "Sub t u \<le> 0 \<longleftrightarrow> t - u \<le> 0"
  by (auto simp: Sub_def)

lemma request_marshal_error:
  "Marshal w req = Inl e \<Longrightarrow>
     request w c ctx method req response = (Return (Some e, response) 0, [])"
  by (simp add: request_def)

lemma request2_marshal_error:
  "Marshal w req = Inl e \<Longrightarrow>
     request2 w c ctx method req response = (Return (Some e, response) 0, [])"
  by (simp add: request2_def)

lemma request_done_at_call:
  "Marshal w req = Inr s \<Longrightarrow> DoneAt ctx = Some 0 \<Longrightarrow>
     request w c ctx method req response = (Return (Err ctx, response) 0, [])"
  by (simp add: request_def)

lemma request_deadline_passed:
  "Marshal w req = Inr s \<Longrightarrow> DoneAt ctx \<noteq> Some 0 \<Longrightarrow> Deadline ctx = Some d \<Longrightarrow>
     d - Now w \<le> 0 \<Longrightarrow>
     request w c ctx method req response = (Return (Some Canceled, response) 0, [])"
  by (simp add: request_def Sub_le0_iff Let_def)

lemma rpc_error:
  "request w c ctx method req resp = (Return (Some e, r) i, evs) \<Longrightarrow>
     rpc w c ctx method req resp = (Return (None, Some e) i, evs)"
  by (simp add: rpc_def)

lemma rpc_success:
  "request w c ctx method req resp = (Return (None, r) i, evs) \<Longrightarrow>
     rpc w c ctx method req resp = (Return (Some r, ErrorForStatus (Status r)) i, evs)"
  by (simp add: rpc_def)

lemma rpc_blocks:
  "request w c ctx method req resp = (Blocks, evs) \<Longrightarrow>
     rpc w c ctx method req resp = (Blocks, evs)"
  by (simp add: rpc_def)

text \<open>
  C1. When serialization succeeds and the done channel of the context is ready at the
  call, \<^verbatim>\<open>request\<close> returns what \<^verbatim>\<open>ctx.Err()\<close> gives at once, leaves the response untouched
  and hands nothing to the HTTP client. For a context that is canceled (its error is
  \<open>Canceled\<close>, as after \<^verbatim>\<open>cancel()\<close>) the error returned is \<open>Canceled\<close>, and the method
  around \<^verbatim>\<open>request\<close> returns a nil response with \<open>Canceled\<close>.
\<close>

theorem request_already_canceled:
  assumes "Marshal w req = Inr serializedReq" and "DoneAt ctx = Some 0"
  shows "request w c ctx method req response = (Return (Err ctx, response) 0, [])
         \<and> (Err ctx = Some Canceled \<longrightarrow>
              request w c ctx method req response = (Return (Some Canceled, response) 0, [])
              \<and> rpc w c ctx method req resp = (Return (None, Some Canceled) 0, []))"
proof -
  have r: "request w c ctx method req x = (Return (Err ctx, x) 0, [])" for x
    by (rule request_done_at_call [OF assms])
  have "rpc w c ctx method req resp = (Return (None, Some Canceled) 0, [])"
    if "Err ctx = Some Canceled"
  proof -
    from r [of resp] that
    have "request w c ctx method req resp = (Return (Some Canceled, resp) 0, [])"
      by simp
    then show ?thesis by (rule rpc_error)
  qed
  with r [of response] show ?thesis by simp
qed

theorem request_already_canceled_witness:
  "Marshal (testWorld (Inr ''{}'') (Inl (LibError ''unreachable'')) None keeps) () = Inr ''{}''
   \<and> DoneAt canceled = Some 0 \<and> Err canceled = Some Canceled
   \<and> request (testWorld (Inr ''{}'') (Inl (LibError ''unreachable'')) None keeps)
        \<lparr>BaseURL = []\<rparr> canceled ''GroupListGet'' () \<lparr>Status = 0, GroupList = []\<rparr>
      = (Return (Some Canceled, \<lparr>Status = 0, GroupList = []\<rparr>) 0, [])
   \<and> GroupListGet (testWorld (Inr ''{}'') (Inl (LibError ''unreachable'')) None keeps)
        \<lparr>BaseURL = []\<rparr> canceled () = (Return (None, Some Canceled) 0, [])"
  using request_already_canceled
    [of "testWorld (Inr ''{}'') (Inl (LibError ''unreachable'')) None keeps" "()" "''{}''"
       canceled "\<lparr>BaseURL = []\<rparr>" "''GroupListGet''"
       "\<lparr>Status = 0, GroupList = []\<rparr>" "\<lparr>Status = 0, GroupList = []\<rparr>"]
  by (simp add: testWorld_def canceled_def GroupListGet_def)

lemma request_dispatched:
  assumes "Marshal w req = Inr s" and "dispatches w ctx"
  shows "request w c ctx method req response =
     (case select2 (DoneAt ctx) (PostDone w (postOf w c ctx method s)) (Pick w) of
        Forever \<Rightarrow> (Blocks, [HttpPost (postOf w c ctx method s)])
      | CtxDone i \<Rightarrow> (Return (Err ctx, response) i, [HttpPost (postOf w c ctx method s)])
      | GotResult j \<Rightarrow>
          (case err (doPost w (reqURL (postOf w c ctx method s)) (timeoutOf w ctx) s) of
             Some e \<Rightarrow> (Return (Some e, response) j, [HttpPost (postOf w c ctx method s)])
           | None \<Rightarrow>
               (case Unmarshal w (body (doPost w (reqURL (postOf w c ctx method s)) (timeoutOf w ctx) s)) response of
                  (response', Some e) \<Rightarrow>
                    (Return (Some (ErrorString
                        (''JSON error: '' @ Error e @ '' while parsing body: ''
                         @ quote (QuoteHigh w) (body (doPost w (reqURL (postOf w c ctx method s)) (timeoutOf w ctx) s)))), response') j,
                     [HttpPost (postOf w c ctx method s), JsonUnmarshal (body (doPost w (reqURL (postOf w c ctx method s)) (timeoutOf w ctx) s))])
                | (response', None) \<Rightarrow>
                    (Return (None, response') j,
                     [HttpPost (postOf w c ctx method s), JsonUnmarshal (body (doPost w (reqURL (postOf w c ctx method s)) (timeoutOf w ctx) s))]))))"
  using assms
  by (auto simp: request_def dispatches_def postOf_def timeoutOf_def Let_def Sub_pos_iff Sub_le0_iff
      split: option.splits select_case.splits)

lemma select2_ctx_first:
  "(case r of None \<Rightarrow> True | Some j \<Rightarrow> i < j) \<Longrightarrow> select2 (Some i) r pick = CtxDone i"
  by (simp add: select2_def split: option.splits)

text \<open>
  C2, as amended. When serialization succeeds and the context has a deadline with
  deadline minus now at most zero, \<^verbatim>\<open>request\<close> returns at once, leaves the response
  untouched and hands nothing to the HTTP client. The error is \<open>Canceled\<close> when the done
  channel is not ready at the call, and what \<^verbatim>\<open>ctx.Err()\<close> gives when it is. A remaining
  time of exactly zero is included: it is never passed on as a timeout of 0.
\<close>

theorem request_deadline_elapsed:
  assumes "Marshal w req = Inr serializedReq"
    and "Deadline ctx = Some deadline" and "deadline - Now w \<le> 0"
  shows "request w c ctx method req response =
           (Return (if DoneAt ctx = Some 0 then Err ctx else Some Canceled, response) 0, [])"
proof (cases "DoneAt ctx = Some 0")
  case True
  with request_done_at_call [OF assms(1) True] show ?thesis by simp
next
  case False
  with request_deadline_passed [OF assms(1) False assms(2,3)] show ?thesis by simp
qed

theorem request_deadline_elapsed_witness:
  "Marshal (testWorld (Inr themeGetRequest) (reply 200 ''200 OK'' [] []) (Some 2) keeps) ()
     = Inr themeGetRequest
   \<and> Deadline (deadlineContext 1000) = Some 1000
   \<and> 1000 - Now (testWorld (Inr themeGetRequest) (reply 200 ''200 OK'' [] []) (Some 2) keeps :: (unit, ThemeGetResponse) world) \<le> 0
   \<and> request (testWorld (Inr themeGetRequest) (reply 200 ''200 OK'' [] []) (Some 2) keeps)
        \<lparr>BaseURL = ''http://127.0.0.1:8080''\<rparr> (deadlineContext 1000) ''ThemeGet'' ()
        \<lparr>Status = 0, Groups = []\<rparr>
      = (Return (Some Canceled, \<lparr>Status = 0, Groups = []\<rparr>) 0, [])"
  using request_deadline_elapsed
    [of "testWorld (Inr themeGetRequest) (reply 200 ''200 OK'' [] []) (Some 2) keeps" "()"
       themeGetRequest "deadlineContext 1000" 1000
       "\<lparr>BaseURL = ''http://127.0.0.1:8080''\<rparr>" "''ThemeGet''" "\<lparr>Status = 0, Groups = []\<rparr>"]
  by (simp add: testWorld_def deadlineContext_def)

text \<open>
  The claim C2 as stated fails in two ways. For a context whose deadline has passed and
  which the library already reports done, \<^verbatim>\<open>request\<close> returns \<open>DeadlineExceeded\<close>, which
  is not \<open>Canceled\<close>. For a payload that does not serialize, \<^verbatim>\<open>request\<close> returns the error
  of \<^verbatim>\<open>json.Marshal\<close>, also when the deadline has passed.
\<close>

theorem request_deadline_elapsed_counterexample:
  "Deadline expired = Some 0
   \<and> 0 - Now (testWorld (Inr themeGetRequest) (reply 200 ''200 OK'' [] []) (Some 2) keeps
               :: (unit, ThemeGetResponse) world) \<le> 0
   \<and> request (testWorld (Inr themeGetRequest) (reply 200 ''200 OK'' [] []) (Some 2) keeps)
        \<lparr>BaseURL = ''http://127.0.0.1:8080''\<rparr> expired ''ThemeGet'' ()
        \<lparr>Status = 0, Groups = []\<rparr>
      = (Return (Some DeadlineExceeded, \<lparr>Status = 0, Groups = []\<rparr>) 0, [])
   \<and> DeadlineExceeded \<noteq> Canceled
   \<and> Deadline (deadlineContext 0) = Some 0
   \<and> request (testWorld (Inl (LibError ''json: unsupported type: chan int''))
                (reply 200 ''200 OK'' [] []) (Some 2) keeps)
        \<lparr>BaseURL = ''http://127.0.0.1:8080''\<rparr> (deadlineContext 0) ''ThemeGet'' ()
        \<lparr>Status = 0, Groups = []\<rparr>
      = (Return (Some (LibError ''json: unsupported type: chan int''),
                 \<lparr>Status = 0, Groups = []\<rparr>) 0, [])
   \<and> LibError ''json: unsupported type: chan int'' \<noteq> Canceled"
  by (simp add: request_def testWorld_def expired_def deadlineContext_def)

text \<open>
  C3. The request has been dispatched, the done channel becomes ready at instant \<open>i\<close>,
  and the exchange has not completed by then (it completes later, or never). Then
  \<^verbatim>\<open>request\<close> returns the context's error at instant \<open>i\<close>, whatever the exchange does
  afterwards; the response is left as it was, nothing is handed to \<^verbatim>\<open>json.Unmarshal\<close>,
  and the method returns a nil response with that error.
\<close>

theorem request_canceled_in_flight:
  assumes "Marshal w req = Inr serializedReq" and "dispatches w ctx"
    and "DoneAt ctx = Some i" and "Err ctx = Some e"
    and "case PostDone w (postOf w c ctx method serializedReq) of None \<Rightarrow> True | Some j \<Rightarrow> i < j"
  shows "request w c ctx method req response
           = (Return (Some e, response) i, [HttpPost (postOf w c ctx method serializedReq)])
         \<and> rpc w c ctx method req resp
           = (Return (None, Some e) i, [HttpPost (postOf w c ctx method serializedReq)])"
proof -
  have r: "request w c ctx method req x
           = (Return (Some e, x) i, [HttpPost (postOf w c ctx method serializedReq)])" for x
    by (simp add: request_dispatched [OF assms(1,2)] assms(3,4) select2_ctx_first [OF assms(5)])
  from r [of resp] have "rpc w c ctx method req resp
           = (Return (None, Some e) i, [HttpPost (postOf w c ctx method serializedReq)])"
    by (rule rpc_error)
  with r [of response] show ?thesis by simp
qed

theorem request_canceled_in_flight_witness:
  "Marshal (testWorld (Inr themeGetRequest) (reply 200 ''200 OK'' ''application/json'' themeGetBody)
              (Some 60) (storesGroups [\<lparr>GroupNumber = 0, Intensity = 26\<rparr>])) () = Inr themeGetRequest
   \<and> dispatches (testWorld (Inr themeGetRequest)
                   (reply 200 ''200 OK'' ''application/json'' themeGetBody)
                   (Some 60) (storesGroups [\<lparr>GroupNumber = 0, Intensity = 26\<rparr>]) :: (unit, ThemeGetResponse) world) canceledLater
   \<and> DoneAt canceledLater = Some 1 \<and> Err canceledLater = Some Canceled
   \<and> ThemeGet (testWorld (Inr themeGetRequest)
                 (reply 200 ''200 OK'' ''application/json'' themeGetBody)
                 (Some 60) (storesGroups [\<lparr>GroupNumber = 0, Intensity = 26\<rparr>]))
        \<lparr>BaseURL = ''http://127.0.0.1:8080''\<rparr> canceledLater ()
      = (Return (None, Some Canceled) 1,
         [HttpPost \<lparr>reqURL = ''http://127.0.0.1:8080/ThemeGet.json'', reqTimeout = 0,
                    reqContentType = ''application/json'', reqBody = themeGetRequest\<rparr>])"
  using request_canceled_in_flight
    [of "testWorld (Inr themeGetRequest) (reply 200 ''200 OK'' ''application/json'' themeGetBody)
              (Some 60) (storesGroups [\<lparr>GroupNumber = 0, Intensity = 26\<rparr>])" "()" themeGetRequest
       canceledLater 1 Canceled "\<lparr>BaseURL = ''http://127.0.0.1:8080''\<rparr>" "''ThemeGet''"
       "\<lparr>Status = 0, Groups = []\<rparr>" "\<lparr>Status = 0, Groups = []\<rparr>"]
  by (simp add: testWorld_def canceledLater_def ThemeGet_def dispatches_def postOf_def timeoutOf_def)

text \<open>
  C4, as amended. Serialization comes first in both revisions of \<^verbatim>\<open>request\<close>: when
  \<^verbatim>\<open>json.Marshal\<close> fails, its error is returned at once whatever the state of the context,
  and nothing is handed to the HTTP client. Only when serialization succeeds does a
  context that is already canceled make \<^verbatim>\<open>request\<close> return \<open>Canceled\<close>.
\<close>

theorem request_serializes_first:
  "(Marshal w req = Inl e \<longrightarrow>
      request w c ctx method req response = (Return (Some e, response) 0, [])
      \<and> request2 w c ctx method req response = (Return (Some e, response) 0, []))
   \<and> (Marshal w req = Inr serializedReq \<and> DoneAt ctx = Some 0 \<and> Err ctx = Some Canceled \<longrightarrow>
      request w c ctx method req response = (Return (Some Canceled, response) 0, []))"
  using request_marshal_error [of w req e c ctx "method" response]
    request2_marshal_error [of w req e c ctx "method" response]
    request_done_at_call [of w req serializedReq ctx c "method" response]
  by simp

theorem request_serializes_first_witness:
  "Marshal (testWorld (Inl (LibError ''json: unsupported type: chan int''))
                (reply 200 ''200 OK'' [] []) (Some 2) keeps) ()
     = Inl (LibError ''json: unsupported type: chan int'')
   \<and> request (testWorld (Inl (LibError ''json: unsupported type: chan int''))
                (reply 200 ''200 OK'' [] []) (Some 2) keeps)
        \<lparr>BaseURL = []\<rparr> background ''GroupListGet'' () \<lparr>Status = 0, GroupList = []\<rparr>
      = (Return (Some (LibError ''json: unsupported type: chan int''),
                 \<lparr>Status = 0, GroupList = []\<rparr>) 0, [])
   \<and> request2 (testWorld (Inl (LibError ''json: unsupported type: chan int''))
                (reply 200 ''200 OK'' [] []) (Some 2) keeps)
        \<lparr>BaseURL = []\<rparr> background ''GroupListGet'' () \<lparr>Status = 0, GroupList = []\<rparr>
      = (Return (Some (LibError ''json: unsupported type: chan int''),
                 \<lparr>Status = 0, GroupList = []\<rparr>) 0, [])"
  using request_serializes_first
    [of "testWorld (Inl (LibError ''json: unsupported type: chan int''))
                (reply 200 ''200 OK'' [] []) (Some 2) keeps" "()"
       "LibError ''json: unsupported type: chan int''" "\<lparr>BaseURL = []\<rparr>" background
       "''GroupListGet''" "\<lparr>Status = 0, GroupList = []\<rparr>" "[]"]
  by (simp add: testWorld_def)

text \<open>
  The claim C4 as stated fails for a payload that does not serialize: with a context
  that is already canceled, \<^verbatim>\<open>request\<close> returns the error of \<^verbatim>\<open>json.Marshal\<close>, not
  \<open>Canceled\<close>.
\<close>

theorem request_serializes_first_counterexample:
  "DoneAt canceled = Some 0 \<and> Err canceled = Some Canceled
   \<and> request (testWorld (Inl (LibError ''json: unsupported type: chan int''))
                (reply 200 ''200 OK'' [] []) (Some 2) keeps)
        \<lparr>BaseURL = []\<rparr> canceled ''GroupListGet'' () \<lparr>Status = 0, GroupList = []\<rparr>
      = (Return (Some (LibError ''json: unsupported type: chan int''),
                 \<lparr>Status = 0, GroupList = []\<rparr>) 0, [])
   \<and> LibError ''json: unsupported type: chan int'' \<noteq> Canceled"
  by (simp add: request_def testWorld_def canceled_def)

lemma doPost_completed:
  assumes "Post w \<lparr>reqURL = url, reqTimeout = timeout, reqContentType = ''application/json'',
                   reqBody = requestBody\<rparr> = Inr httpResp"
    and "ReadAll httpResp = Inr b"
  shows "doPost w url timeout requestBody =
     (if StatusCode httpResp \<noteq> 200
      then \<lparr>body = [], err = Some (ErrorString
             (''Unexpected HTTP status: '' @ quote (QuoteHigh w) (HttpStatus httpResp)
              @ '' with body: '' @ quote (QuoteHigh w) b))\<rparr>
      else if ContentType httpResp \<noteq> ''application/json''
      then \<lparr>body = [], err = Some (ErrorString
             (''Unexpected response content type: '' @ quote (QuoteHigh w) (ContentType httpResp)
              @ '' with body: '' @ quote (QuoteHigh w) b))\<rparr>
      else \<lparr>body = b, err = None\<rparr>)"
  using assms by (simp add: doPost_def)

lemma request_result:
  assumes "Marshal w req = Inr s" and "dispatches w ctx"
    and "select2 (DoneAt ctx) (PostDone w (postOf w c ctx method s)) (Pick w) = GotResult j"
  shows "request w c ctx method req response =
          (case err (doPost w (reqURL (postOf w c ctx method s)) (timeoutOf w ctx) s) of
             Some e \<Rightarrow> (Return (Some e, response) j, [HttpPost (postOf w c ctx method s)])
           | None \<Rightarrow>
               (case Unmarshal w (body (doPost w (reqURL (postOf w c ctx method s)) (timeoutOf w ctx) s)) response of
                  (response', Some e) \<Rightarrow>
                    (Return (Some (ErrorString
                        (''JSON error: '' @ Error e @ '' while parsing body: ''
                         @ quote (QuoteHigh w) (body (doPost w (reqURL (postOf w c ctx method s)) (timeoutOf w ctx) s)))), response') j,
                     [HttpPost (postOf w c ctx method s), JsonUnmarshal (body (doPost w (reqURL (postOf w c ctx method s)) (timeoutOf w ctx) s))])
                | (response', None) \<Rightarrow>
                    (Return (None, response') j,
                     [HttpPost (postOf w c ctx method s), JsonUnmarshal (body (doPost w (reqURL (postOf w c ctx method s)) (timeoutOf w ctx) s))])))"
  by (simp add: request_dispatched [OF assms(1,2)] assms(3))

lemma doPost_of_postOf:
  assumes "Post w (postOf w c ctx method s) = Inr httpResp" and "ReadAll httpResp = Inr b"
  shows "doPost w (reqURL (postOf w c ctx method s)) (timeoutOf w ctx) s =
     (if StatusCode httpResp \<noteq> 200
      then \<lparr>body = [], err = Some (ErrorString
             (''Unexpected HTTP status: '' @ quote (QuoteHigh w) (HttpStatus httpResp)
              @ '' with body: '' @ quote (QuoteHigh w) b))\<rparr>
      else if ContentType httpResp \<noteq> ''application/json''
      then \<lparr>body = [], err = Some (ErrorString
             (''Unexpected response content type: '' @ quote (QuoteHigh w) (ContentType httpResp)
              @ '' with body: '' @ quote (QuoteHigh w) b))\<rparr>
      else \<lparr>body = b, err = None\<rparr>)"
  using assms by (intro doPost_completed) (simp_all add: postOf_def)

text \<open>
  C7. The request has been dispatched and the result of a completed exchange (a
  response whose body was read) is received. If the HTTP status code is not 200,
  \<^verbatim>\<open>request\<close> returns the error made of the status line and the body, whatever the
  content type is. If the code is 200 and the content type is not exactly
  \<^verbatim>\<open>application/json\<close>, it returns the error made of the content type and the body. In
  both cases the response is left as it was. A body is handed to \<^verbatim>\<open>json.Unmarshal\<close>
  exactly when both checks pass, and it is the body that was read.
\<close>

theorem request_transport_validation:
  assumes "Marshal w req = Inr serializedReq" and "dispatches w ctx"
    and "select2 (DoneAt ctx) (PostDone w (postOf w c ctx method serializedReq)) (Pick w)
           = GotResult j"
    and "Post w (postOf w c ctx method serializedReq) = Inr httpResp"
    and "ReadAll httpResp = Inr b"
  shows "(StatusCode httpResp \<noteq> 200 \<longrightarrow>
            request w c ctx method req response =
              (Return (Some (ErrorString
                 (''Unexpected HTTP status: '' @ quote (QuoteHigh w) (HttpStatus httpResp)
                  @ '' with body: '' @ quote (QuoteHigh w) b)), response) j,
               [HttpPost (postOf w c ctx method serializedReq)]))
       \<and> (StatusCode httpResp = 200 \<and> ContentType httpResp \<noteq> ''application/json'' \<longrightarrow>
            request w c ctx method req response =
              (Return (Some (ErrorString
                 (''Unexpected response content type: ''
                  @ quote (QuoteHigh w) (ContentType httpResp)
                  @ '' with body: '' @ quote (QuoteHigh w) b)), response) j,
               [HttpPost (postOf w c ctx method serializedReq)]))
       \<and> ((\<exists>x. JsonUnmarshal x \<in> set (snd (request w c ctx method req response))) \<longleftrightarrow>
            StatusCode httpResp = 200 \<and> ContentType httpResp = ''application/json'')
       \<and> (\<forall>x. JsonUnmarshal x \<in> set (snd (request w c ctx method req response)) \<longrightarrow> x = b)"
  by (auto simp: request_result [OF assms(1,2,3)] doPost_of_postOf [OF assms(4,5)]
      split: prod.splits option.splits)

theorem request_transport_validation_witness:
  "request (testWorld (Inr themeGetRequest)
              (reply 500 ''500 Internal Server Error'' ''text/plain; charset=utf-8'' horribleBody)
              (Some 2) keeps)
        \<lparr>BaseURL = ''http://127.0.0.1:8080''\<rparr> background ''ThemeGet'' ()
        \<lparr>Status = 0, Groups = []\<rparr>
      = (Return (Some (ErrorString badStatusMessage), \<lparr>Status = 0, Groups = []\<rparr>) 2,
         [HttpPost \<lparr>reqURL = ''http://127.0.0.1:8080/ThemeGet.json'', reqTimeout = 0,
                    reqContentType = ''application/json'', reqBody = themeGetRequest\<rparr>])
   \<and> Contains badStatusMessage ''Horrible problem'' \<and> Contains badStatusMessage ''500''
   \<and> request (testWorld (Inr themeGetRequest) (reply 200 ''200 OK'' ''text/plain'' ''ok'')
              (Some 2) keeps)
        \<lparr>BaseURL = ''http://127.0.0.1:8080''\<rparr> background ''ThemeGet'' ()
        \<lparr>Status = 0, Groups = []\<rparr>
      = (Return (Some (ErrorString badContentTypeMessage), \<lparr>Status = 0, Groups = []\<rparr>) 2,
         [HttpPost \<lparr>reqURL = ''http://127.0.0.1:8080/ThemeGet.json'', reqTimeout = 0,
                    reqContentType = ''application/json'', reqBody = themeGetRequest\<rparr>])
   \<and> Contains badContentTypeMessage ''text/plain''"
proof -
  have a: "''Unexpected HTTP status: '' @ quote (\<lambda>s. s) ''500 Internal Server Error''
             @ '' with body: '' @ quote (\<lambda>s. s) horribleBody
           = badStatusMessage"
    by (simp add: quote_def quoteByte_def horribleBody_def badStatusMessage_def)
  have b: "''Unexpected response content type: '' @ quote (\<lambda>s. s) ''text/plain''
             @ '' with body: '' @ quote (\<lambda>s. s) ''ok''
           = badContentTypeMessage"
    by (simp add: quote_def quoteByte_def badContentTypeMessage_def)
  have c: "Contains badStatusMessage ''Horrible problem''" "Contains badStatusMessage ''500''"
    "Contains badContentTypeMessage ''text/plain''"
    by (simp_all add: badStatusMessage_def badContentTypeMessage_def)
  show ?thesis
    using request_transport_validation
      [of "testWorld (Inr themeGetRequest)
              (reply 500 ''500 Internal Server Error'' ''text/plain; charset=utf-8'' horribleBody)
              (Some 2) keeps" "()" themeGetRequest background
         "\<lparr>BaseURL = ''http://127.0.0.1:8080''\<rparr>" "''ThemeGet''" 2
         "\<lparr>StatusCode = 500, HttpStatus = ''500 Internal Server Error'',
           ContentType = ''text/plain; charset=utf-8'', ReadAll = Inr horribleBody\<rparr>"
         horribleBody "\<lparr>Status = 0, Groups = []\<rparr>"]
      request_transport_validation
      [of "testWorld (Inr themeGetRequest) (reply 200 ''200 OK'' ''text/plain'' ''ok'')
              (Some 2) keeps" "()" themeGetRequest background
         "\<lparr>BaseURL = ''http://127.0.0.1:8080''\<rparr>" "''ThemeGet''" 2
         "\<lparr>StatusCode = 200, HttpStatus = ''200 OK'',
           ContentType = ''text/plain'', ReadAll = Inr ''ok''\<rparr>"
         "''ok''" "\<lparr>Status = 0, Groups = []\<rparr>"]
      a b c
    by (simp add: testWorld_def reply_def background_def dispatches_def postOf_def timeoutOf_def
        select2_def)
qed

lemma Contains_prefix: "Contains (p @ ys) p"
proof (cases "p @ ys")
  case Nil
  then show ?thesis by simp
next
  case (Cons a list)
  have "take (length p) (p @ ys) = p" by simp
  then have "take (length p) (a # list) = p" unfolding Cons .
  then have "Contains (a # list) p" by (simp del: take_Cons')
  then show ?thesis unfolding Cons .
qed

lemma Contains_append: "Contains (xs @ p @ ys) p"
proof (induction xs)
  case Nil
  show ?case by (simp add: Contains_prefix)
next
  case (Cons x xs)
  then show ?case by simp
qed

lemma quoteByte_plain: "plain ch \<Longrightarrow> quoteByte ch = [ch]"
  by (simp add: plain_def quoteByte_def Let_def)

lemma quoteFrom_plain: "\<forall>ch\<in>set s. plain ch \<Longrightarrow> quoteFrom hi [] s = s"
proof (induction s)
  case Nil
  show ?case by simp
next
  case (Cons a s)
  then have "plain a" by simp
  then have "(of_char a :: nat) < 0x80" by (simp add: plain_def)
  with Cons \<open>plain a\<close> show ?case by (simp add: quoteByte_plain)
qed

lemma quote_plain: "\<forall>ch\<in>set s. plain ch \<Longrightarrow> quote hi s = CHR 0x22 # s @ [CHR 0x22]"
  by (simp add: quote_def quoteFrom_plain)

lemma request2_result:
  assumes "Marshal w req = Inr s"
    and "NewRequest w (reqURL (postOf w c ctx method s)) = None"
    and "Do w ctx ((postOf w c ctx method s)\<lparr>reqTimeout := 0\<rparr>) = Some (j, Inr httpResp)"
    and "ReadAll httpResp = Inr b"
    and "StatusCode httpResp = 200" and "ContentType httpResp = ''application/json''"
  shows "request2 w c ctx method req response =
     (case Unmarshal w b response of
        (response', Some e) \<Rightarrow>
          (Return (Some (ErrorString
              (''JSON error: '' @ Error e @ '' while parsing body: '' @ quote (QuoteHigh w) b)),
             response') j,
           [HttpPost ((postOf w c ctx method s)\<lparr>reqTimeout := 0\<rparr>), JsonUnmarshal b])
      | (response', None) \<Rightarrow>
          (Return (None, response') j,
           [HttpPost ((postOf w c ctx method s)\<lparr>reqTimeout := 0\<rparr>), JsonUnmarshal b]))"
  using assms by (simp add: request2_def postOf_def Let_def split: prod.splits option.splits)

lemma request_validated:
  assumes "Marshal w req = Inr s" and "dispatches w ctx"
    and "select2 (DoneAt ctx) (PostDone w (postOf w c ctx method s)) (Pick w) = GotResult j"
    and "Post w (postOf w c ctx method s) = Inr httpResp"
    and "ReadAll httpResp = Inr b"
    and "StatusCode httpResp = 200" and "ContentType httpResp = ''application/json''"
  shows "request w c ctx method req response =
     (case Unmarshal w b response of
        (response', Some e) \<Rightarrow>
          (Return (Some (ErrorString
              (''JSON error: '' @ Error e @ '' while parsing body: '' @ quote (QuoteHigh w) b)),
             response') j,
           [HttpPost (postOf w c ctx method s), JsonUnmarshal b])
      | (response', None) \<Rightarrow>
          (Return (None, response') j, [HttpPost (postOf w c ctx method s), JsonUnmarshal b]))"
  by (simp add: request_result [OF assms(1,2,3)] doPost_of_postOf [OF assms(4,5)] assms(6,7)
      split: prod.splits option.splits)

lemma rpc_on_error:
  "request w c ctx name req z = (Return (Some e, r) i, evs) \<longrightarrow>
     rpc w c ctx name req z = (Return (None, Some e) i, evs)"
  by (simp add: rpc_error)

lemma rpc_on_success:
  "request w c ctx name req z = (Return (None, r) i, evs) \<longrightarrow>
     rpc w c ctx name req z = (Return (Some r, ErrorForStatus (Status r)) i, evs)
     \<and> (Status r \<noteq> 0 \<longrightarrow> ErrorForStatus (Status r) \<noteq> None)"
  by (simp add: rpc_success ErrorForStatus_nil_iff)

text \<open>
  C8. For each of the 22 methods of \<^verbatim>\<open>*Controller\<close>, called on its own endpoint name with
  the response it allocates: when \<^verbatim>\<open>request\<close> returns an error, the method returns a nil
  response and that same error; when \<^verbatim>\<open>request\<close> returns nil, the method returns the
  response as \<^verbatim>\<open>request\<close> left it together with \<open>ErrorForStatus\<close> of its \<open>Status\<close> field,
  which is an error whenever the status is not 0. The worlds and responses \<open>w\<close>, \<open>r\<close>
  are those of the methods whose response has only \<open>Status\<close>; \<open>wn\<close>, \<open>wg\<close>, \<open>wt\<close>, \<open>wl\<close>
  and \<open>rn\<close>, \<open>rg\<close>, \<open>rt\<close>, \<open>rl\<close> are those of the four richer response types.
\<close>

theorem Controller_methods_compose:
  "(request w c ctx ''AssignLight'' req \<lparr>Status = 0\<rparr> = (Return (Some e, r) i, evs) \<longrightarrow>
      AssignLight w c ctx req = (Return (None, Some e) i, evs))
   \<and> (request w c ctx ''AssignLight'' req \<lparr>Status = 0\<rparr> = (Return (None, r) i, evs) \<longrightarrow>
      AssignLight w c ctx req = (Return (Some r, ErrorForStatus (Status r)) i, evs)
      \<and> (Status r \<noteq> 0 \<longrightarrow> ErrorForStatus (Status r) \<noteq> None))
   \<and> (request wn c ctx ''ControllerName'' req \<lparr>Status = 0, Controller = []\<rparr> = (Return (Some e, rn) i, evs) \<longrightarrow>
      ControllerName wn c ctx req = (Return (None, Some e) i, evs))
   \<and> (request wn c ctx ''ControllerName'' req \<lparr>Status = 0, Controller = []\<rparr> = (Return (None, rn) i, evs) \<longrightarrow>
      ControllerName wn c ctx req = (Return (Some rn, ErrorForStatus (Status rn)) i, evs)
      \<and> (Status rn \<noteq> 0 \<longrightarrow> ErrorForStatus (Status rn) \<noteq> None))
   \<and> (request w c ctx ''ExtinguishAll'' req \<lparr>Status = 0\<rparr> = (Return (Some e, r) i, evs) \<longrightarrow>
      ExtinguishAll w c ctx req = (Return (None, Some e) i, evs))
   \<and> (request w c ctx ''ExtinguishAll'' req \<lparr>Status = 0\<rparr> = (Return (None, r) i, evs) \<longrightarrow>
      ExtinguishAll w c ctx req = (Return (Some r, ErrorForStatus (Status r)) i, evs)
      \<and> (Status r \<noteq> 0 \<longrightarrow> ErrorForStatus (Status r) \<noteq> None))
   \<and> (request w c ctx ''FlashLights'' req \<lparr>Status = 0\<rparr> = (Return (Some e, r) i, evs) \<longrightarrow>
      FlashLights w c ctx req = (Return (None, Some e) i, evs))
   \<and> (request w c ctx ''FlashLights'' req \<lparr>Status = 0\<rparr> = (Return (None, r) i, evs) \<longrightarrow>
      FlashLights w c ctx req = (Return (Some r, ErrorForStatus (Status r)) i, evs)
      \<and> (Status r \<noteq> 0 \<longrightarrow> ErrorForStatus (Status r) \<noteq> None))
   \<and> (request w c ctx ''GroupListAdd'' req \<lparr>Status = 0\<rparr> = (Return (Some e, r) i, evs) \<longrightarrow>
      GroupListAdd w c ctx req = (Return (None, Some e) i, evs))
   \<and> (request w c ctx ''GroupListAdd'' req \<lparr>Status = 0\<rparr> = (Return (None, r) i, evs) \<longrightarrow>
      GroupListAdd w c ctx req = (Return (Some r, ErrorForStatus (Status r)) i, evs)
      \<and> (Status r \<noteq> 0 \<longrightarrow> ErrorForStatus (Status r) \<noteq> None))
   \<and> (request wg c ctx ''GroupListClear'' req \<lparr>Status = 0, GroupList = []\<rparr> = (Return (Some e, rg) i, evs) \<longrightarrow>
      GroupListClear wg c ctx req = (Return (None, Some e) i, evs))
   \<and> (request wg c ctx ''GroupListClear'' req \<lparr>Status = 0, GroupList = []\<rparr> = (Return (None, rg) i, evs) \<longrightarrow>
      GroupListClear wg c ctx req = (Return (Some rg, ErrorForStatus (Status rg)) i, evs)
      \<and> (Status rg \<noteq> 0 \<longrightarrow> ErrorForStatus (Status rg) \<noteq> None))
   \<and> (request w c ctx ''GroupListDelete'' req \<lparr>Status = 0\<rparr> = (Return (Some e, r) i, evs) \<longrightarrow>
      GroupListDelete w c ctx req = (Return (None, Some e) i, evs))
   \<and> (request w c ctx ''GroupListDelete'' req \<lparr>Status = 0\<rparr> = (Return (None, r) i, evs) \<longrightarrow>
      GroupListDelete w c ctx req = (Return (Some r, ErrorForStatus (Status r)) i, evs)
      \<and> (Status r \<noteq> 0 \<longrightarrow> ErrorForStatus (Status r) \<noteq> None))
   \<and> (request wg c ctx ''GroupListGet'' req \<lparr>Status = 0, GroupList = []\<rparr> = (Return (Some e, rg) i, evs) \<longrightarrow>
      GroupListGet wg c ctx req = (Return (None, Some e) i, evs))
   \<and> (request wg c ctx ''GroupListGet'' req \<lparr>Status = 0, GroupList = []\<rparr> = (Return (None, rg) i, evs) \<longrightarrow>
      GroupListGet wg c ctx req = (Return (Some rg, ErrorForStatus (Status rg)) i, evs)
      \<and> (Status rg \<noteq> 0 \<longrightarrow> ErrorForStatus (Status rg) \<noteq> None))
   \<and> (request w c ctx ''GroupListRename'' req \<lparr>Status = 0\<rparr> = (Return (Some e, r) i, evs) \<longrightarrow>
      GroupListRename w c ctx req = (Return (None, Some e) i, evs))
   \<and> (request w c ctx ''GroupListRename'' req \<lparr>Status = 0\<rparr> = (Return (None, r) i, evs) \<longrightarrow>
      GroupListRename w c ctx req = (Return (Some r, ErrorForStatus (Status r)) i, evs)
      \<and> (Status r \<noteq> 0 \<longrightarrow> ErrorForStatus (Status r) \<noteq> None))
   \<and> (request w c ctx ''GroupListReorder'' req \<lparr>Status = 0\<rparr> = (Return (Some e, r) i, evs) \<longrightarrow>
      GroupListReorder w c ctx req = (Return (None, Some e) i, evs))
   \<and> (request w c ctx ''GroupListReorder'' req \<lparr>Status = 0\<rparr> = (Return (None, r) i, evs) \<longrightarrow>
      GroupListReorder w c ctx req = (Return (Some r, ErrorForStatus (Status r)) i, evs)
      \<and> (Status r \<noteq> 0 \<longrightarrow> ErrorForStatus (Status r) \<noteq> None))
   \<and> (request w c ctx ''IlluminateAll'' req \<lparr>Status = 0\<rparr> = (Return (Some e, r) i, evs) \<longrightarrow>
      IlluminateAll w c ctx req = (Return (None, Some e) i, evs))
   \<and> (request w c ctx ''IlluminateAll'' req \<lparr>Status = 0\<rparr> = (Return (None, r) i, evs) \<longrightarrow>
      IlluminateAll w c ctx req = (Return (Some r, ErrorForStatus (Status r)) i, evs)
      \<and> (Status r \<noteq> 0 \<longrightarrow> ErrorForStatus (Status r) \<noteq> None))
   \<and> (request w c ctx ''IlluminateGroup'' req \<lparr>Status = 0\<rparr> = (Return (Some e, r) i, evs) \<longrightarrow>
      IlluminateGroup w c ctx req = (Return (None, Some e) i, evs))
   \<and> (request w c ctx ''IlluminateGroup'' req \<lparr>Status = 0\<rparr> = (Return (None, r) i, evs) \<longrightarrow>
      IlluminateGroup w c ctx req = (Return (Some r, ErrorForStatus (Status r)) i, evs)
      \<and> (Status r \<noteq> 0 \<longrightarrow> ErrorForStatus (Status r) \<noteq> None))
   \<and> (request w c ctx ''IlluminateTheme'' req \<lparr>Status = 0\<rparr> = (Return (Some e, r) i, evs) \<longrightarrow>
      IlluminateTheme w c ctx req = (Return (None, Some e) i, evs))
   \<and> (request w c ctx ''IlluminateTheme'' req \<lparr>Status = 0\<rparr> = (Return (None, r) i, evs) \<longrightarrow>
      IlluminateTheme w c ctx req = (Return (Some r, ErrorForStatus (Status r)) i, evs)
      \<and> (Status r \<noteq> 0 \<longrightarrow> ErrorForStatus (Status r) \<noteq> None))
   \<and> (request w c ctx ''ThemeClear'' req \<lparr>Status = 0\<rparr> = (Return (Some e, r) i, evs) \<longrightarrow>
      ThemeClear w c ctx req = (Return (None, Some e) i, evs))
   \<and> (request w c ctx ''ThemeClear'' req \<lparr>Status = 0\<rparr> = (Return (None, r) i, evs) \<longrightarrow>
      ThemeClear w c ctx req = (Return (Some r, ErrorForStatus (Status r)) i, evs)
      \<and> (Status r \<noteq> 0 \<longrightarrow> ErrorForStatus (Status r) \<noteq> None))
   \<and> (request wt c ctx ''ThemeGet'' req \<lparr>Status = 0, Groups = []\<rparr> = (Return (Some e, rt) i, evs) \<longrightarrow>
      ThemeGet wt c ctx req = (Return (None, Some e) i, evs))
   \<and> (request wt c ctx ''ThemeGet'' req \<lparr>Status = 0, Groups = []\<rparr> = (Return (None, rt) i, evs) \<longrightarrow>
      ThemeGet wt c ctx req = (Return (Some rt, ErrorForStatus (Status rt)) i, evs)
      \<and> (Status rt \<noteq> 0 \<longrightarrow> ErrorForStatus (Status rt) \<noteq> None))
   \<and> (request w c ctx ''ThemeListAdd'' req \<lparr>Status = 0\<rparr> = (Return (Some e, r) i, evs) \<longrightarrow>
      ThemeListAdd w c ctx req = (Return (None, Some e) i, evs))
   \<and> (request w c ctx ''ThemeListAdd'' req \<lparr>Status = 0\<rparr> = (Return (None, r) i, evs) \<longrightarrow>
      ThemeListAdd w c ctx req = (Return (Some r, ErrorForStatus (Status r)) i, evs)
      \<and> (Status r \<noteq> 0 \<longrightarrow> ErrorForStatus (Status r) \<noteq> None))
   \<and> (request w c ctx ''ThemeListClear'' req \<lparr>Status = 0\<rparr> = (Return (Some e, r) i, evs) \<longrightarrow>
      ThemeListClear w c ctx req = (Return (None, Some e) i, evs))
   \<and> (request w c ctx ''ThemeListClear'' req \<lparr>Status = 0\<rparr> = (Return (None, r) i, evs) \<longrightarrow>
      ThemeListClear w c ctx req = (Return (Some r, ErrorForStatus (Status r)) i, evs)
      \<and> (Status r \<noteq> 0 \<longrightarrow> ErrorForStatus (Status r) \<noteq> None))
   \<and> (request w c ctx ''ThemeListDelete'' req \<lparr>Status = 0\<rparr> = (Return (Some e, r) i, evs) \<longrightarrow>
      ThemeListDelete w c ctx req = (Return (None, Some e) i, evs))
   \<and> (request w c ctx ''ThemeListDelete'' req \<lparr>Status = 0\<rparr> = (Return (None, r) i, evs) \<longrightarrow>
      ThemeListDelete w c ctx req = (Return (Some r, ErrorForStatus (Status r)) i, evs)
      \<and> (Status r \<noteq> 0 \<longrightarrow> ErrorForStatus (Status r) \<noteq> None))
   \<and> (request wl c ctx ''ThemeListGet'' req \<lparr>Status = 0, Restricted = 0, ThemeList = []\<rparr> = (Return (Some e, rl) i, evs) \<longrightarrow>
      ThemeListGet wl c ctx req = (Return (None, Some e) i, evs))
   \<and> (request wl c ctx ''ThemeListGet'' req \<lparr>Status = 0, Restricted = 0, ThemeList = []\<rparr> = (Return (None, rl) i, evs) \<longrightarrow>
      ThemeListGet wl c ctx req = (Return (Some rl, ErrorForStatus (Status rl)) i, evs)
      \<and> (Status rl \<noteq> 0 \<longrightarrow> ErrorForStatus (Status rl) \<noteq> None))
   \<and> (request w c ctx ''ThemeListRename'' req \<lparr>Status = 0\<rparr> = (Return (Some e, r) i, evs) \<longrightarrow>
      ThemeListRename w c ctx req = (Return (None, Some e) i, evs))
   \<and> (request w c ctx ''ThemeListRename'' req \<lparr>Status = 0\<rparr> = (Return (None, r) i, evs) \<longrightarrow>
      ThemeListRename w c ctx req = (Return (Some r, ErrorForStatus (Status r)) i, evs)
      \<and> (Status r \<noteq> 0 \<longrightarrow> ErrorForStatus (Status r) \<noteq> None))
   \<and> (request w c ctx ''ThemeListReorder'' req \<lparr>Status = 0\<rparr> = (Return (Some e, r) i, evs) \<longrightarrow>
      ThemeListReorder w c ctx req = (Return (None, Some e) i, evs))
   \<and> (request w c ctx ''ThemeListReorder'' req \<lparr>Status = 0\<rparr> = (Return (None, r) i, evs) \<longrightarrow>
      ThemeListReorder w c ctx req = (Return (Some r, ErrorForStatus (Status r)) i, evs)
      \<and> (Status r \<noteq> 0 \<longrightarrow> ErrorForStatus (Status r) \<noteq> None))
   \<and> (request w c ctx ''ThemeSet'' req \<lparr>Status = 0\<rparr> = (Return (Some e, r) i, evs) \<longrightarrow>
      ThemeSet w c ctx req = (Return (None, Some e) i, evs))
   \<and> (request w c ctx ''ThemeSet'' req \<lparr>Status = 0\<rparr> = (Return (None, r) i, evs) \<longrightarrow>
      ThemeSet w c ctx req = (Return (Some r, ErrorForStatus (Status r)) i, evs)
      \<and> (Status r \<noteq> 0 \<longrightarrow> ErrorForStatus (Status r) \<noteq> None))"
  unfolding AssignLight_def ControllerName_def ExtinguishAll_def FlashLights_def GroupListAdd_def
    GroupListClear_def GroupListDelete_def GroupListGet_def GroupListRename_def
    GroupListReorder_def IlluminateAll_def IlluminateGroup_def IlluminateTheme_def
    ThemeClear_def ThemeGet_def ThemeListAdd_def ThemeListClear_def ThemeListDelete_def
    ThemeListGet_def ThemeListRename_def ThemeListReorder_def ThemeSet_def
  by (intro conjI) (rule rpc_on_error rpc_on_success)+

theorem Controller_methods_compose_witness:
  "request (testWorld (Inr themeGetRequest) (reply 200 ''200 OK'' ''application/json'' statusOneBody)
              (Some 2) (storesStatus 1))
        \<lparr>BaseURL = ''http://127.0.0.1:8080''\<rparr> background ''ThemeGet'' ()
        \<lparr>Status = 0, Groups = []\<rparr>
      = (Return (None, \<lparr>Status = 1, Groups = []\<rparr>) 2,
         [HttpPost \<lparr>reqURL = ''http://127.0.0.1:8080/ThemeGet.json'', reqTimeout = 0,
                    reqContentType = ''application/json'', reqBody = themeGetRequest\<rparr>,
          JsonUnmarshal statusOneBody])
   \<and> ThemeGet (testWorld (Inr themeGetRequest)
                 (reply 200 ''200 OK'' ''application/json'' statusOneBody) (Some 2) (storesStatus 1))
        \<lparr>BaseURL = ''http://127.0.0.1:8080''\<rparr> background ()
      = (Return (Some \<lparr>Status = 1, Groups = []\<rparr>, Some (ErrorString ''unknown method'')) 2,
         [HttpPost \<lparr>reqURL = ''http://127.0.0.1:8080/ThemeGet.json'', reqTimeout = 0,
                    reqContentType = ''application/json'', reqBody = themeGetRequest\<rparr>,
          JsonUnmarshal statusOneBody])
   \<and> request (testWorld (Inr themeGetRequest) (Inl (LibError ''unsupported protocol scheme''))
              (Some 2) keeps)
        \<lparr>BaseURL = ''badscheme://''\<rparr> background ''ThemeGet'' () \<lparr>Status = 0, Groups = []\<rparr>
      = (Return (Some (LibError ''unsupported protocol scheme''), \<lparr>Status = 0, Groups = []\<rparr>) 2,
         [HttpPost \<lparr>reqURL = ''badscheme:///ThemeGet.json'', reqTimeout = 0,
                    reqContentType = ''application/json'', reqBody = themeGetRequest\<rparr>])
   \<and> ThemeGet (testWorld (Inr themeGetRequest) (Inl (LibError ''unsupported protocol scheme''))
              (Some 2) keeps)
        \<lparr>BaseURL = ''badscheme://''\<rparr> background ()
      = (Return (None, Some (LibError ''unsupported protocol scheme'')) 2,
         [HttpPost \<lparr>reqURL = ''badscheme:///ThemeGet.json'', reqTimeout = 0,
                    reqContentType = ''application/json'', reqBody = themeGetRequest\<rparr>])"
proof -
  have a: "request (testWorld (Inr themeGetRequest)
              (reply 200 ''200 OK'' ''application/json'' statusOneBody) (Some 2) (storesStatus 1))
        \<lparr>BaseURL = ''http://127.0.0.1:8080''\<rparr> background ''ThemeGet'' ()
        \<lparr>Status = 0, Groups = []\<rparr>
      = (Return (None, \<lparr>Status = 1, Groups = []\<rparr>) 2,
         [HttpPost \<lparr>reqURL = ''http://127.0.0.1:8080/ThemeGet.json'', reqTimeout = 0,
                    reqContentType = ''application/json'', reqBody = themeGetRequest\<rparr>,
          JsonUnmarshal statusOneBody])"
    by (simp add: request_def doPost_def testWorld_def reply_def background_def storesStatus_def
        select2_def Let_def)
  have b: "request (testWorld (Inr themeGetRequest) (Inl (LibError ''unsupported protocol scheme''))
              (Some 2) keeps)
        \<lparr>BaseURL = ''badscheme://''\<rparr> background ''ThemeGet'' () \<lparr>Status = 0, Groups = []\<rparr>
      = (Return (Some (LibError ''unsupported protocol scheme''), \<lparr>Status = 0, Groups = []\<rparr>) 2,
         [HttpPost \<lparr>reqURL = ''badscheme:///ThemeGet.json'', reqTimeout = 0,
                    reqContentType = ''application/json'', reqBody = themeGetRequest\<rparr>])"
    by (simp add: request_def doPost_def testWorld_def background_def select2_def Let_def)
  have s: "ErrorForStatus 1 = Some (ErrorString ''unknown method'')"
    by (simp add: ErrorForStatus_def statusName_def)
  note t1 = Controller_methods_compose
      [where wt = "testWorld (Inr themeGetRequest)
              (reply 200 ''200 OK'' ''application/json'' statusOneBody) (Some 2) (storesStatus 1)"
         and c = "\<lparr>BaseURL = ''http://127.0.0.1:8080''\<rparr>" and ctx = background and req = "()"
         and rt = "\<lparr>Status = 1, Groups = []\<rparr>" and i = 2 and e = Canceled
         and w = "testWorld (Inr themeGetRequest) (Inl Canceled) None keeps"
         and wn = "testWorld (Inr themeGetRequest) (Inl Canceled) None keeps"
         and wg = "testWorld (Inr themeGetRequest) (Inl Canceled) None keeps"
         and wl = "testWorld (Inr themeGetRequest) (Inl Canceled) None keeps"
         and r = "\<lparr>Status = 0\<rparr>" and rn = "\<lparr>Status = 0, Controller = []\<rparr>"
         and rg = "\<lparr>Status = 0, GroupList = []\<rparr>"
         and rl = "\<lparr>Status = 0, Restricted = 0, ThemeList = []\<rparr>"
         and evs = "[HttpPost \<lparr>reqURL = ''http://127.0.0.1:8080/ThemeGet.json'', reqTimeout = 0,
                    reqContentType = ''application/json'', reqBody = themeGetRequest\<rparr>,
          JsonUnmarshal statusOneBody]"]
  note t2 = Controller_methods_compose
      [where wt = "testWorld (Inr themeGetRequest) (Inl (LibError ''unsupported protocol scheme''))
              (Some 2) keeps"
         and c = "\<lparr>BaseURL = ''badscheme://''\<rparr>" and ctx = background and req = "()"
         and e = "LibError ''unsupported protocol scheme''"
         and rt = "\<lparr>Status = 0, Groups = []\<rparr>" and i = 2
         and w = "testWorld (Inr themeGetRequest) (Inl Canceled) None keeps"
         and wn = "testWorld (Inr themeGetRequest) (Inl Canceled) None keeps"
         and wg = "testWorld (Inr themeGetRequest) (Inl Canceled) None keeps"
         and wl = "testWorld (Inr themeGetRequest) (Inl Canceled) None keeps"
         and r = "\<lparr>Status = 0\<rparr>" and rn = "\<lparr>Status = 0, Controller = []\<rparr>"
         and rg = "\<lparr>Status = 0, GroupList = []\<rparr>"
         and rl = "\<lparr>Status = 0, Restricted = 0, ThemeList = []\<rparr>"
         and evs = "[HttpPost \<lparr>reqURL = ''badscheme:///ThemeGet.json'', reqTimeout = 0,
                    reqContentType = ''application/json'', reqBody = themeGetRequest\<rparr>]"]
  from t1 have p: "request (testWorld (Inr themeGetRequest)
                 (reply 200 ''200 OK'' ''application/json'' statusOneBody) (Some 2) (storesStatus 1))
        \<lparr>BaseURL = ''http://127.0.0.1:8080''\<rparr> background ''ThemeGet'' ()
        \<lparr>Status = 0, Groups = []\<rparr>
      = (Return (None, \<lparr>Status = 1, Groups = []\<rparr>) 2,
         [HttpPost \<lparr>reqURL = ''http://127.0.0.1:8080/ThemeGet.json'', reqTimeout = 0,
                    reqContentType = ''application/json'', reqBody = themeGetRequest\<rparr>,
          JsonUnmarshal statusOneBody]) \<longrightarrow>
      ThemeGet (testWorld (Inr themeGetRequest)
                 (reply 200 ''200 OK'' ''application/json'' statusOneBody) (Some 2) (storesStatus 1))
        \<lparr>BaseURL = ''http://127.0.0.1:8080''\<rparr> background ()
      = (Return (Some \<lparr>Status = 1, Groups = []\<rparr>,
                 ErrorForStatus (Status \<lparr>Status = 1, Groups = []\<rparr>)) 2,
         [HttpPost \<lparr>reqURL = ''http://127.0.0.1:8080/ThemeGet.json'', reqTimeout = 0,
                    reqContentType = ''application/json'', reqBody = themeGetRequest\<rparr>,
          JsonUnmarshal statusOneBody])
      \<and> (Status \<lparr>Status = 1, Groups = []\<rparr> \<noteq> 0 \<longrightarrow>
           ErrorForStatus (Status \<lparr>Status = 1, Groups = []\<rparr>) \<noteq> None)"
    apply -
    apply (elim conjE)
    apply assumption
    done
  from t2 have q: "request (testWorld (Inr themeGetRequest)
              (Inl (LibError ''unsupported protocol scheme'')) (Some 2) keeps)
        \<lparr>BaseURL = ''badscheme://''\<rparr> background ''ThemeGet'' () \<lparr>Status = 0, Groups = []\<rparr>
      = (Return (Some (LibError ''unsupported protocol scheme''), \<lparr>Status = 0, Groups = []\<rparr>) 2,
         [HttpPost \<lparr>reqURL = ''badscheme:///ThemeGet.json'', reqTimeout = 0,
                    reqContentType = ''application/json'', reqBody = themeGetRequest\<rparr>]) \<longrightarrow>
      ThemeGet (testWorld (Inr themeGetRequest)
              (Inl (LibError ''unsupported protocol scheme'')) (Some 2) keeps)
        \<lparr>BaseURL = ''badscheme://''\<rparr> background ()
      = (Return (None, Some (LibError ''unsupported protocol scheme'')) 2,
         [HttpPost \<lparr>reqURL = ''badscheme:///ThemeGet.json'', reqTimeout = 0,
                    reqContentType = ''application/json'', reqBody = themeGetRequest\<rparr>])"
    apply -
    apply (elim conjE)
    apply assumption
    done
  from p a s have x: "ThemeGet (testWorld (Inr themeGetRequest)
                 (reply 200 ''200 OK'' ''application/json'' statusOneBody) (Some 2) (storesStatus 1))
        \<lparr>BaseURL = ''http://127.0.0.1:8080''\<rparr> background ()
      = (Return (Some \<lparr>Status = 1, Groups = []\<rparr>, Some (ErrorString ''unknown method'')) 2,
         [HttpPost \<lparr>reqURL = ''http://127.0.0.1:8080/ThemeGet.json'', reqTimeout = 0,
                    reqContentType = ''application/json'', reqBody = themeGetRequest\<rparr>,
          JsonUnmarshal statusOneBody])"
    by simp
  from q b have y: "ThemeGet (testWorld (Inr themeGetRequest)
              (Inl (LibError ''unsupported protocol scheme'')) (Some 2) keeps)
        \<lparr>BaseURL = ''badscheme://''\<rparr> background ()
      = (Return (None, Some (LibError ''unsupported protocol scheme'')) 2,
         [HttpPost \<lparr>reqURL = ''badscheme:///ThemeGet.json'', reqTimeout = 0,
                    reqContentType = ''application/json'', reqBody = themeGetRequest\<rparr>])"
    by (rule mp)
  from a x b y show ?thesis
    by (intro conjI)
qed

text \<open>
  C9, as amended. A body that was read from a 200 response of content type
  \<^verbatim>\<open>application/json\<close> and that \<^verbatim>\<open>json.Unmarshal\<close> rejects makes \<^verbatim>\<open>request\<close>, in both
  revisions, return the error whose message is \<^verbatim>\<open>JSON error:\<close>, the message of the
  decoder's error, \<^verbatim>\<open>while parsing body:\<close> and the body as \<^verbatim>\<open>%q\<close> writes it. The message
  contains the decoder's message and the quoted body; it contains the body itself when
  every byte of the body is one that \<^verbatim>\<open>%q\<close> writes unchanged.
\<close>

theorem request_malformed_response:
  assumes "Marshal w req = Inr serializedReq"
    and "ReadAll httpResp = Inr b"
    and "StatusCode httpResp = 200" and "ContentType httpResp = ''application/json''"
    and "Unmarshal w b response = (response', Some e)"
  shows "(dispatches w ctx
          \<and> select2 (DoneAt ctx) (PostDone w (postOf w c ctx method serializedReq)) (Pick w)
              = GotResult j
          \<and> Post w (postOf w c ctx method serializedReq) = Inr httpResp \<longrightarrow>
            returned (request w c ctx method req response)
              = Some (Some (ErrorString
                  (''JSON error: '' @ Error e @ '' while parsing body: ''
                   @ quote (QuoteHigh w) b))))
       \<and> (NewRequest w (reqURL (postOf w c ctx method serializedReq)) = None
          \<and> Do w ctx ((postOf w c ctx method serializedReq)\<lparr>reqTimeout := 0\<rparr>)
              = Some (j, Inr httpResp) \<longrightarrow>
            returned (request2 w c ctx method req response)
              = Some (Some (ErrorString
                  (''JSON error: '' @ Error e @ '' while parsing body: ''
                   @ quote (QuoteHigh w) b))))
       \<and> Contains (''JSON error: '' @ Error e @ '' while parsing body: ''
                    @ quote (QuoteHigh w) b) (Error e)
       \<and> Contains (''JSON error: '' @ Error e @ '' while parsing body: ''
                    @ quote (QuoteHigh w) b) (quote (QuoteHigh w) b)
       \<and> ((\<forall>ch\<in>set b. plain ch) \<longrightarrow>
            Contains (''JSON error: '' @ Error e @ '' while parsing body: ''
                      @ quote (QuoteHigh w) b) b)"
proof (intro conjI impI)
  assume "dispatches w ctx
          \<and> select2 (DoneAt ctx) (PostDone w (postOf w c ctx method serializedReq)) (Pick w)
              = GotResult j
          \<and> Post w (postOf w c ctx method serializedReq) = Inr httpResp"
  then show "returned (request w c ctx method req response)
              = Some (Some (ErrorString
                  (''JSON error: '' @ Error e @ '' while parsing body: ''
                   @ quote (QuoteHigh w) b)))"
    using request_validated [of w req serializedReq ctx c "method" j httpResp b response] assms
    by simp
next
  assume "NewRequest w (reqURL (postOf w c ctx method serializedReq)) = None
          \<and> Do w ctx ((postOf w c ctx method serializedReq)\<lparr>reqTimeout := 0\<rparr>)
              = Some (j, Inr httpResp)"
  then show "returned (request2 w c ctx method req response)
              = Some (Some (ErrorString
                  (''JSON error: '' @ Error e @ '' while parsing body: ''
                   @ quote (QuoteHigh w) b)))"
    using request2_result [of w req serializedReq c ctx "method" j httpResp b response] assms
    by simp
next
  show "Contains (''JSON error: '' @ Error e @ '' while parsing body: ''
                    @ quote (QuoteHigh w) b) (Error e)"
    by (rule Contains_append)
next
  have "Contains ((''JSON error: '' @ Error e @ '' while parsing body: '')
                    @ quote (QuoteHigh w) b @ []) (quote (QuoteHigh w) b)"
    by (rule Contains_append)
  then show "Contains (''JSON error: '' @ Error e @ '' while parsing body: ''
                    @ quote (QuoteHigh w) b) (quote (QuoteHigh w) b)"
    by simp
next
  assume p: "\<forall>ch\<in>set b. plain ch"
  have "Contains ((''JSON error: '' @ Error e @ '' while parsing body: '' @ [CHR 0x22])
                    @ b @ [CHR 0x22]) b"
    by (rule Contains_append)
  then show "Contains (''JSON error: '' @ Error e @ '' while parsing body: ''
                      @ quote (QuoteHigh w) b) b"
    by (simp add: quote_plain [OF p])
qed

theorem request_malformed_response_witness:
  "returned (request (testWorld (Inr themeGetRequest)
                        (reply 200 ''200 OK'' ''application/json'' ''asdf'') (Some 2)
                        (rejects asdfSyntaxError))
               \<lparr>BaseURL = ''http://127.0.0.1:8080''\<rparr> background ''ThemeGet'' ()
               \<lparr>Status = 0, Groups = []\<rparr>)
     = Some (Some (ErrorString asdfMessage))
   \<and> returned (request2 (testWorld (Inr themeGetRequest)
                        (reply 200 ''200 OK'' ''application/json'' ''asdf'') (Some 2)
                        (rejects asdfSyntaxError))
               \<lparr>BaseURL = ''http://127.0.0.1:8080''\<rparr> background ''ThemeGet'' ()
               \<lparr>Status = 0, Groups = []\<rparr>)
     = Some (Some (ErrorString asdfMessage))
   \<and> Contains asdfMessage asdfSyntaxError
   \<and> list_all plain ''asdf'' \<and> Contains asdfMessage ''asdf''"
proof -
  let ?W = "testWorld (Inr themeGetRequest) (reply 200 ''200 OK'' ''application/json'' ''asdf'')
              (Some 2) (rejects asdfSyntaxError) :: (unit, ThemeGetResponse) world"
  let ?c = "\<lparr>BaseURL = ''http://127.0.0.1:8080''\<rparr>"
  let ?h = "\<lparr>StatusCode = 200, HttpStatus = ''200 OK'', ContentType = ''application/json'',
             ReadAll = Inr ''asdf''\<rparr>"
  have h1: "Marshal ?W () = Inr themeGetRequest"
    by (simp add: testWorld_def)
  have h2: "ReadAll ?h = Inr ''asdf''" "StatusCode ?h = 200"
    "ContentType ?h = ''application/json''"
    by simp_all
  have h3: "Unmarshal ?W ''asdf'' \<lparr>Status = 0, Groups = []\<rparr>
              = (\<lparr>Status = 0, Groups = []\<rparr>, Some (LibError asdfSyntaxError))"
    by (simp add: testWorld_def rejects_def)
  have q: "''JSON error: '' @ Error (LibError asdfSyntaxError) @ '' while parsing body: ''
             @ quote (QuoteHigh ?W) ''asdf'' = asdfMessage"
    by (simp add: quote_def quoteByte_def asdfMessage_def testWorld_def)
  have d: "dispatches ?W background
           \<and> select2 (DoneAt background) (PostDone ?W (postOf ?W ?c background ''ThemeGet''
                themeGetRequest)) (Pick ?W) = GotResult 2
           \<and> Post ?W (postOf ?W ?c background ''ThemeGet'' themeGetRequest) = Inr ?h"
    by (simp add: testWorld_def reply_def background_def dispatches_def select2_def)
  have d2: "NewRequest ?W (reqURL (postOf ?W ?c background ''ThemeGet'' themeGetRequest)) = None
            \<and> Do ?W background ((postOf ?W ?c background ''ThemeGet'' themeGetRequest)
                 \<lparr>reqTimeout := 0\<rparr>) = Some (2, Inr ?h)"
    by (simp add: testWorld_def reply_def)
  have p: "\<forall>ch\<in>set ''asdf''. plain ch"
    by (simp add: plain_def)
  note t = request_malformed_response [OF h1 h2 h3, of background ?c "''ThemeGet''" 2,
      unfolded q]
  from t d have r1: "returned (request ?W ?c background ''ThemeGet'' () \<lparr>Status = 0, Groups = []\<rparr>)
     = Some (Some (ErrorString asdfMessage))"
    by blast
  from t d2 have r2: "returned (request2 ?W ?c background ''ThemeGet'' ()
       \<lparr>Status = 0, Groups = []\<rparr>) = Some (Some (ErrorString asdfMessage))"
    by blast
  from t have r3: "Contains asdfMessage (Error (LibError asdfSyntaxError))"
    by blast
  from t p have r4: "Contains asdfMessage ''asdf''"
    by blast
  from p have r5: "list_all plain ''asdf''"
    by (simp only: list_all_iff)
  from r1 r2 r3 r4 r5 show ?thesis
    by (simp only: Error.simps simp_thms)
qed

text \<open>
  The claim C9 as stated fails for a body with a double quote in it: the truncated
  object \<^verbatim>\<open>{"Status":\<close> appears in the message with a backslash before each quote, so
  the message does not contain the body as it was received.
\<close>

theorem request_malformed_response_counterexample:
  "request (testWorld (Inr themeGetRequest) (reply 200 ''200 OK'' ''application/json'' truncatedBody)
              (Some 2) (rejects ''unexpected end of JSON input''))
        \<lparr>BaseURL = ''http://127.0.0.1:8080''\<rparr> background ''ThemeGet'' ()
        \<lparr>Status = 0, Groups = []\<rparr>
      = (Return (Some (ErrorString truncatedMessage), \<lparr>Status = 0, Groups = []\<rparr>) 2,
         [HttpPost \<lparr>reqURL = ''http://127.0.0.1:8080/ThemeGet.json'', reqTimeout = 0,
                    reqContentType = ''application/json'', reqBody = themeGetRequest\<rparr>,
          JsonUnmarshal truncatedBody])
   \<and> \<not> Contains truncatedMessage truncatedBody"
proof -
  have q: "''JSON error: '' @ ''unexpected end of JSON input'' @ '' while parsing body: ''
             @ quote (\<lambda>s. s) truncatedBody = truncatedMessage"
    by (simp add: quote_def quoteByte_def truncatedBody_def truncatedMessage_def)
  have n: "\<not> Contains truncatedMessage truncatedBody"
    by (simp add: truncatedBody_def truncatedMessage_def)
  have "request (testWorld (Inr themeGetRequest) (reply 200 ''200 OK'' ''application/json'' truncatedBody)
              (Some 2) (rejects ''unexpected end of JSON input''))
        \<lparr>BaseURL = ''http://127.0.0.1:8080''\<rparr> background ''ThemeGet'' ()
        \<lparr>Status = 0, Groups = []\<rparr>
      = (Return (Some (ErrorString (''JSON error: '' @ ''unexpected end of JSON input''
            @ '' while parsing body: '' @ quote (\<lambda>s. s) truncatedBody)),
           \<lparr>Status = 0, Groups = []\<rparr>) 2,
         [HttpPost \<lparr>reqURL = ''http://127.0.0.1:8080/ThemeGet.json'', reqTimeout = 0,
                    reqContentType = ''application/json'', reqBody = themeGetRequest\<rparr>,
          JsonUnmarshal truncatedBody])"
    by (simp add: request_def doPost_def testWorld_def reply_def background_def rejects_def
        select2_def Let_def)
  with q n show ?thesis by simp
qed

text \<open>
  C10. The round trip of \<^verbatim>\<open>TestSuccessfulThemeGet\<close>: the server answers 200 with content
  type \<^verbatim>\<open>application/json\<close> and the body with two groups and no \<^verbatim>\<open>Status\<close>. The decoder
  stores the two groups and touches no other field of the response it is given. Then
  \<open>ThemeGet\<close> returns the response with these two groups and no error: the \<open>Status\<close>
  field still has the zero the method allocated it with, and \<open>ErrorForStatus 0\<close> is nil.
\<close>

theorem ThemeGet_roundtrip:
  assumes "Marshal w req = Inr serializedReq" and "dispatches w ctx"
    and "select2 (DoneAt ctx) (PostDone w (postOf w c ctx ''ThemeGet'' serializedReq)) (Pick w)
           = GotResult j"
    and "Post w (postOf w c ctx ''ThemeGet'' serializedReq) = Inr httpResp"
    and "StatusCode httpResp = 200" and "ContentType httpResp = ''application/json''"
    and "ReadAll httpResp = Inr themeGetBody"
    and "\<And>r. Unmarshal w themeGetBody r
           = (r\<lparr>Groups := [\<lparr>GroupNumber = 0, Intensity = 26\<rparr>,
                             \<lparr>GroupNumber = 1, Intensity = 42\<rparr>]\<rparr>, None)"
  shows "ThemeGet w c ctx req
           = (Return (Some \<lparr>Status = 0, Groups = [\<lparr>GroupNumber = 0, Intensity = 26\<rparr>,
                                                    \<lparr>GroupNumber = 1, Intensity = 42\<rparr>]\<rparr>,
                      None) j,
              [HttpPost (postOf w c ctx ''ThemeGet'' serializedReq), JsonUnmarshal themeGetBody])"
proof -
  have "request w c ctx ''ThemeGet'' req \<lparr>Status = 0, Groups = []\<rparr>
          = (Return (None, \<lparr>Status = 0, Groups = [\<lparr>GroupNumber = 0, Intensity = 26\<rparr>,
                                                    \<lparr>GroupNumber = 1, Intensity = 42\<rparr>]\<rparr>) j,
             [HttpPost (postOf w c ctx ''ThemeGet'' serializedReq), JsonUnmarshal themeGetBody])"
    by (simp add: request_validated [OF assms(1,2,3,4,7,5,6)] assms(8))
  then have "rpc w c ctx ''ThemeGet'' req \<lparr>Status = 0, Groups = []\<rparr>
          = (Return (Some \<lparr>Status = 0, Groups = [\<lparr>GroupNumber = 0, Intensity = 26\<rparr>,
                                                   \<lparr>GroupNumber = 1, Intensity = 42\<rparr>]\<rparr>,
                     ErrorForStatus (Status \<lparr>Status = 0,
                        Groups = [\<lparr>GroupNumber = 0, Intensity = 26\<rparr>,
                                  \<lparr>GroupNumber = 1, Intensity = 42\<rparr>]\<rparr>)) j,
             [HttpPost (postOf w c ctx ''ThemeGet'' serializedReq), JsonUnmarshal themeGetBody])"
    by (rule rpc_success)
  then show ?thesis
    by (simp add: ThemeGet_def ErrorForStatus_def)
qed

theorem ThemeGet_roundtrip_witness:
  "ThemeGet (testWorld (Inr themeGetRequest) (reply 200 ''200 OK'' ''application/json'' themeGetBody)
               (Some 2) (storesGroups [\<lparr>GroupNumber = 0, Intensity = 26\<rparr>,
                                       \<lparr>GroupNumber = 1, Intensity = 42\<rparr>]))
        \<lparr>BaseURL = ''http://127.0.0.1:8080''\<rparr> background ()
      = (Return (Some \<lparr>Status = 0, Groups = [\<lparr>GroupNumber = 0, Intensity = 26\<rparr>,
                                               \<lparr>GroupNumber = 1, Intensity = 42\<rparr>]\<rparr>, None) 2,
         [HttpPost \<lparr>reqURL = ''http://127.0.0.1:8080/ThemeGet.json'', reqTimeout = 0,
                    reqContentType = ''application/json'', reqBody = themeGetRequest\<rparr>,
          JsonUnmarshal themeGetBody])"
  using ThemeGet_roundtrip
    [of "testWorld (Inr themeGetRequest) (reply 200 ''200 OK'' ''application/json'' themeGetBody)
               (Some 2) (storesGroups [\<lparr>GroupNumber = 0, Intensity = 26\<rparr>,
                                       \<lparr>GroupNumber = 1, Intensity = 42\<rparr>])" "()"
       themeGetRequest background "\<lparr>BaseURL = ''http://127.0.0.1:8080''\<rparr>" 2
       "\<lparr>StatusCode = 200, HttpStatus = ''200 OK'', ContentType = ''application/json'',
         ReadAll = Inr themeGetBody\<rparr>"]
  by (simp add: testWorld_def reply_def background_def storesGroups_def dispatches_def postOf_def
      timeoutOf_def select2_def)

end
